theory Spec2Isabelle
  imports Main
begin

section \<open>Python strings\<close>

text \<open>
  A Python \<^verbatim>\<open>str\<close> is a sequence of Unicode code points, so a string is a list of
  natural numbers here. \<open>lit\<close> turns an ASCII literal into such a list.
\<close>

type_synonym cp = nat
type_synonym ustr = "cp list"

definition lit :: "string \<Rightarrow> ustr" where
  "lit s = map of_char s"

text \<open>
  \<^verbatim>\<open>str.isspace\<close>, which is also what \<^verbatim>\<open>str.strip()\<close> removes and what \<^verbatim>\<open>\s\<close>
  matches in a \<^verbatim>\<open>str\<close> pattern: the 29 code points U+0009..U+000D, U+001C..U+0020,
  U+0085, U+00A0, U+1680, U+2000..U+200A, U+2028, U+2029, U+202F, U+205F, U+3000.
\<close>

definition py_isspace :: "cp \<Rightarrow> bool" where
  "py_isspace c \<longleftrightarrow>
     (9 \<le> c \<and> c \<le> 13) \<or> (28 \<le> c \<and> c \<le> 32) \<or> c = 133 \<or> c = 160 \<or> c = 5760 \<or>
     (8192 \<le> c \<and> c \<le> 8202) \<or> c = 8232 \<or> c = 8233 \<or> c = 8239 \<or> c = 8287 \<or> c = 12288"

text \<open>
  The decimal digits (general category Nd, Unicode 14.0): they come in 66 runs of ten
  consecutive code points, listed by the code point of their zero. \<^verbatim>\<open>\d\<close> matches
  exactly these, and \<^verbatim>\<open>int\<close> reads each as the digit \<open>c - zero\<close>.
\<close>

definition digit_zeros :: "cp list" where
  "digit_zeros =
    [48, 1632, 1776, 1984, 2406, 2534, 2662, 2790, 2918, 3046, 3174, 3302, 3430, 3558,
     3664, 3792, 3872, 4160, 4240, 6112, 6160, 6470, 6608, 6784, 6800, 6992, 7088, 7232,
     7248, 42528, 43216, 43264, 43472, 43504, 43600, 44016, 65296, 66720, 68912, 69734,
     69872, 69942, 70096, 70384, 70736, 70864, 71248, 71360, 71472, 71904, 72016, 72784,
     73040, 73120, 92768, 92864, 93008, 120782, 120792, 120802, 120812, 120822, 123200,
     123632, 125264, 130032]"

definition py_decimal :: "cp \<Rightarrow> nat option" where
  "py_decimal c =
     (case filter (\<lambda>z. z \<le> c \<and> c < z + 10) digit_zeros of
        [] \<Rightarrow> None
      | z # _ \<Rightarrow> Some (c - z))"

definition py_isdecimal :: "cp \<Rightarrow> bool" where
  "py_isdecimal c \<longleftrightarrow> py_decimal c \<noteq> None"

definition py_lstrip :: "ustr \<Rightarrow> ustr" where
  "py_lstrip s = dropWhile py_isspace s"

definition py_rstrip :: "ustr \<Rightarrow> ustr" where
  "py_rstrip s = rev (dropWhile py_isspace (rev s))"

text \<open>\<^verbatim>\<open>s.strip()\<close>\<close>

definition py_strip :: "ustr \<Rightarrow> ustr" where
  "py_strip s = py_rstrip (py_lstrip s)"

text \<open>\<^verbatim>\<open>s.rstrip('.')\<close>: every trailing full stop goes.\<close>

definition rstrip_dot :: "ustr \<Rightarrow> ustr" where
  "rstrip_dot s = rev (dropWhile (\<lambda>c. c = 46) (rev s))"

text \<open>\<^verbatim>\<open>s.split('\n')\<close>, with the piece being read as an accumulator.\<close>

fun split_acc :: "ustr \<Rightarrow> ustr \<Rightarrow> ustr list" where
  "split_acc cur [] = [cur]"
| "split_acc cur (c # cs) =
     (if c = 10 then cur # split_acc [] cs else split_acc (cur @ [c]) cs)"

definition split_lines :: "ustr \<Rightarrow> ustr list" where
  "split_lines s = split_acc [] s"

text \<open>
  \<^verbatim>\<open>s.replace(old, new)\<close> for a one-character \<open>old\<close>.
\<close>

definition py_replace :: "cp \<Rightarrow> ustr \<Rightarrow> ustr \<Rightarrow> ustr" where
  "py_replace old new s = concat (map (\<lambda>c. if c = old then new else [c]) s)"

text \<open>
  \<^verbatim>\<open>line.lower().startswith(p)\<close> for the two prefixes the program tests,
  \<^verbatim>\<open>mnemonic:\<close> and \<^verbatim>\<open>definition:\<close>. Only the ASCII capitals lower to the letters of
  these prefixes: of the other code points just U+212A lowers to an ASCII string (to
  \<^verbatim>\<open>k\<close>, which neither prefix has) and U+0130 to a string that starts with one (to
  \<^verbatim>\<open>i\<close> followed by U+0307, which neither prefix has after an \<^verbatim>\<open>i\<close>).
\<close>

definition ascii_lower :: "cp \<Rightarrow> cp" where
  "ascii_lower c = (if 65 \<le> c \<and> c \<le> 90 then c + 32 else c)"

definition lower_startswith :: "ustr \<Rightarrow> ustr \<Rightarrow> bool" where
  "lower_startswith p s \<longleftrightarrow> length p \<le> length s \<and> map ascii_lower (take (length p) s) = p"

text \<open>
  \<^verbatim>\<open>str(n)\<close> and \<^verbatim>\<open>f'{n}'\<close> for an integer.
\<close>

fun nat_digits :: "nat \<Rightarrow> ustr" where
  "nat_digits n = (if n < 10 then [48 + n] else nat_digits (n div 10) @ [48 + n mod 10])"

declare nat_digits.simps [simp del]

definition py_str :: "int \<Rightarrow> ustr" where
  "py_str i = (if i < 0 then 45 # nat_digits (nat (- i)) else nat_digits (nat i))"

text \<open>
  \<^verbatim>\<open>int(s)\<close> on a string of decimal digits. CPython refuses a string of more than 640
  digits when the interpreter's limit \<^verbatim>\<open>sys.get_int_max_str_digits()\<close> is set (it is
  4300 unless changed, and 0 switches it off) and the string has more digits than the
  limit; it raises \<^verbatim>\<open>ValueError\<close> then. The limit is the parameter \<open>lim\<close>.
\<close>

datatype error = ValueError

definition default_max_str_digits :: nat where
  "default_max_str_digits = 4300"

definition digits_value :: "ustr \<Rightarrow> int" where
  "digits_value ds =
     foldl (\<lambda>a c. 10 * a + int (case py_decimal c of None \<Rightarrow> 0 | Some d \<Rightarrow> d)) 0 ds"

definition py_int :: "nat \<Rightarrow> ustr \<Rightarrow> error + int" where
  "py_int lim ds =
     (if 640 < length ds \<and> 0 < lim \<and> lim < length ds then Inl ValueError
      else Inr (digits_value ds))"

section \<open>The regular expressions of the program\<close>

text \<open>
  Each pattern of the source is a function that returns what \<^verbatim>\<open>re\<close> returns for it.
  Under \<^verbatim>\<open>re.IGNORECASE\<close> a letter of a pattern matches its two ASCII cases and, for
  \<^verbatim>\<open>i\<close>, \<^verbatim>\<open>s\<close> and \<^verbatim>\<open>k\<close>, also U+0130 and U+0131, U+017F, and U+212A; the class
  \<^verbatim>\<open>[a-zA-Z]\<close> matches the 52 ASCII letters and these four code points.
\<close>

definition sre_lower :: "cp \<Rightarrow> cp" where
  "sre_lower c =
     (if 65 \<le> c \<and> c \<le> 90 then c + 32
      else if c = 304 then 105
      else if c = 8490 then 107
      else c)"

text \<open>An ASCII character \<open>p\<close> of a pattern against the character \<open>c\<close> of the text.\<close>

definition ci_char :: "cp \<Rightarrow> cp \<Rightarrow> bool" where
  "ci_char p c \<longleftrightarrow>
     sre_lower c = sre_lower p \<or> (sre_lower p = 105 \<and> c = 305) \<or> (sre_lower p = 115 \<and> c = 383)"

fun ci_strip_prefix :: "ustr \<Rightarrow> ustr \<Rightarrow> ustr option" where
  "ci_strip_prefix [] s = Some s"
| "ci_strip_prefix (p # ps) [] = None"
| "ci_strip_prefix (p # ps) (c # cs) = (if ci_char p c then ci_strip_prefix ps cs else None)"

definition ci_startswith :: "ustr \<Rightarrow> ustr \<Rightarrow> bool" where
  "ci_startswith p s \<longleftrightarrow> ci_strip_prefix p s \<noteq> None"

fun strip_prefix :: "ustr \<Rightarrow> ustr \<Rightarrow> ustr option" where
  "strip_prefix [] s = Some s"
| "strip_prefix (p # ps) [] = None"
| "strip_prefix (p # ps) (c # cs) = (if p = c then strip_prefix ps cs else None)"

definition alpha_ci :: "cp \<Rightarrow> bool" where
  "alpha_ci c \<longleftrightarrow>
     (65 \<le> c \<and> c \<le> 90) \<or> (97 \<le> c \<and> c \<le> 122) \<or> c = 304 \<or> c = 305 \<or> c = 383 \<or> c = 8490"

text \<open>
  The head both line patterns share, \<^verbatim>\<open>^([a-zA-Z]+(?:\s+[a-zA-Z]+)?)\s*-\<close>: the first
  run of letters, then a second one if white space and a letter follow, then white
  space and the hyphen. Giving back letters or white space cannot make the hyphen match,
  so there is one way to match. The result is group 1 and the text after the hyphen.
\<close>

definition match_word :: "ustr \<Rightarrow> (ustr \<times> ustr) option" where
  "match_word s =
     (let l1 = takeWhile alpha_ci s; r1 = dropWhile alpha_ci s;
          w = takeWhile py_isspace r1; r2 = dropWhile py_isspace r1;
          l2 = takeWhile alpha_ci r2; r3 = dropWhile alpha_ci r2
      in if l1 = [] then None
         else if w \<noteq> [] \<and> l2 \<noteq> [] then
           (case dropWhile py_isspace r3 of
              [] \<Rightarrow> None
            | c # r4 \<Rightarrow> if c = 45 then Some (l1 @ w @ l2, r4) else None)
         else
           (case r2 of
              [] \<Rightarrow> None
            | c # r4 \<Rightarrow> if c = 45 then Some (l1, r4) else None))"

text \<open>
  \<^verbatim>\<open>\s*(.+)$\<close> on the rest of a line (a line holds no newline, so \<^verbatim>\<open>.\<close> matches every
  character and \<^verbatim>\<open>$\<close> the end only): the white space is skipped and the group is what
  is left; when only white space is left, its last character is given back to the group.
\<close>

definition ws_then_rest :: "ustr \<Rightarrow> ustr option" where
  "ws_then_rest t =
     (if t = [] then None
      else if dropWhile py_isspace t \<noteq> [] then Some (dropWhile py_isspace t)
      else Some [last t])"

text \<open>
  \<^verbatim>\<open>re.match(r'^([a-zA-Z]+(?:\s+[a-zA-Z]+)?)\s*-\s*Mnemonic:\s*(.+)$', line, re.IGNORECASE)\<close>:
  groups 1 and 2.
\<close>

definition match_word_mnemonic :: "ustr \<Rightarrow> (ustr \<times> ustr) option" where
  "match_word_mnemonic line =
     (case match_word line of
        None \<Rightarrow> None
      | Some (g1, r) \<Rightarrow>
          (case ci_strip_prefix (lit ''Mnemonic:'') (dropWhile py_isspace r) of
             None \<Rightarrow> None
           | Some t \<Rightarrow>
               (case ws_then_rest t of
                  None \<Rightarrow> None
                | Some g2 \<Rightarrow> Some (g1, g2))))"

text \<open>
  \<^verbatim>\<open>re.match(r'^([a-zA-Z]+(?:\s+[a-zA-Z]+)?)\s*-\s*(?!Mnemonic)(.+)$', line, re.IGNORECASE)\<close>:
  groups 1 and 2. After the hyphen \<^verbatim>\<open>\s*\<close> first takes all the white space; when the
  text there is empty or starts with \<^verbatim>\<open>Mnemonic\<close>, it gives one white-space character
  back, where the lookahead passes, and group 2 starts with that character.
\<close>

definition match_word_def :: "ustr \<Rightarrow> (ustr \<times> ustr) option" where
  "match_word_def line =
     (case match_word line of
        None \<Rightarrow> None
      | Some (g1, r) \<Rightarrow>
          (let ws = takeWhile py_isspace r; t = dropWhile py_isspace r
           in if t \<noteq> [] \<and> \<not> ci_startswith (lit ''Mnemonic'') t then Some (g1, t)
              else if ws \<noteq> [] then Some (g1, last ws # t)
              else None))"

text \<open>
  \<^verbatim>\<open>re.search(r'Definition:\s*(.+?)\.?$', s, re.IGNORECASE)\<close>: group 1 at the leftmost
  place where \<^verbatim>\<open>Definition:\<close> stands with something after it. The lazy group stops one
  character before the end when that leaves a final full stop for \<^verbatim>\<open>\.?\<close>.
\<close>

definition def_group :: "ustr \<Rightarrow> ustr" where
  "def_group t =
     (let u = (if dropWhile py_isspace t \<noteq> [] then dropWhile py_isspace t else [last t])
      in if 2 \<le> length u \<and> last u = 46 then butlast u else u)"

fun def_search :: "ustr \<Rightarrow> ustr option" where
  "def_search [] = None"
| "def_search (c # cs) =
     (case ci_strip_prefix (lit ''Definition:'') (c # cs) of
        None \<Rightarrow> def_search cs
      | Some t \<Rightarrow> if t \<noteq> [] then Some (def_group t) else def_search cs)"

text \<open>
  \<^verbatim>\<open>re.sub(r'\s*Definition:.*$', '', s, flags=re.IGNORECASE)\<close>: the text is cut at the
  leftmost place from which white space and then \<^verbatim>\<open>Definition:\<close> follow.
\<close>

fun cut_definition :: "ustr \<Rightarrow> ustr" where
  "cut_definition [] = []"
| "cut_definition (c # cs) =
     (if ci_startswith (lit ''Definition:'') (dropWhile py_isspace (c # cs)) then []
      else c # cut_definition cs)"

text \<open>
  \<^verbatim>\<open>re.sub(r'^mnemonic:\s*', '', line, flags=re.IGNORECASE)\<close> and the same for
  \<^verbatim>\<open>definition:\<close>: without \<^verbatim>\<open>re.MULTILINE\<close> the pattern can match at the start only.
\<close>

definition sub_prefix :: "ustr \<Rightarrow> ustr \<Rightarrow> ustr" where
  "sub_prefix p line =
     (case ci_strip_prefix p line of
        None \<Rightarrow> line
      | Some t \<Rightarrow> dropWhile py_isspace t)"

text \<open>
  The patterns \<^verbatim>\<open>clean_response_text\<close> removes, each tried where a line starts. The
  result of a pattern is the text after the match.
  \<^verbatim>\<open>^LIT\.?\s*\<close>:
\<close>

definition opener :: "ustr \<Rightarrow> ustr \<Rightarrow> ustr option" where
  "opener p s =
     (case ci_strip_prefix p s of
        None \<Rightarrow> None
      | Some t \<Rightarrow>
          Some (dropWhile py_isspace
                 (case t of [] \<Rightarrow> [] | c # t' \<Rightarrow> if c = 46 then t' else c # t')))"

text \<open>
  \<^verbatim>\<open>.*?X\<close> for a character \<open>X\<close>: the lazy \<^verbatim>\<open>.*?\<close> stops at the first \<open>X\<close> and cannot
  pass a newline.
\<close>

fun upto_char :: "cp \<Rightarrow> ustr \<Rightarrow> ustr option" where
  "upto_char x [] = None"
| "upto_char x (c # cs) =
     (if c = x then Some cs else if c = 10 then None else upto_char x cs)"

text \<open>\<^verbatim>\<open>^Here (?:is|are) .*?:\s*\<close>: the second alternative is tried when the first fails.\<close>

definition here_tail :: "ustr \<Rightarrow> ustr option" where
  "here_tail u =
     (case ci_strip_prefix (lit '' '') u of
        None \<Rightarrow> None
      | Some v \<Rightarrow>
          (case upto_char 58 v of
             None \<Rightarrow> None
           | Some w \<Rightarrow> Some (dropWhile py_isspace w)))"

definition here_is :: "ustr \<Rightarrow> ustr option" where
  "here_is s =
     (case ci_strip_prefix (lit ''Here '') s of
        None \<Rightarrow> None
      | Some t \<Rightarrow>
          (case Option.bind (ci_strip_prefix (lit ''is'') t) here_tail of
             Some r \<Rightarrow> Some r
           | None \<Rightarrow> Option.bind (ci_strip_prefix (lit ''are'') t) here_tail))"

text \<open>\<^verbatim>\<open>^LIT.*?\.\s*\<close>:\<close>

definition upto_dot :: "ustr \<Rightarrow> ustr \<Rightarrow> ustr option" where
  "upto_dot p s =
     (case ci_strip_prefix p s of
        None \<Rightarrow> None
      | Some t \<Rightarrow>
          (case upto_char 46 t of
             None \<Rightarrow> None
           | Some w \<Rightarrow> Some (dropWhile py_isspace w)))"

definition patterns_to_remove :: "(ustr \<Rightarrow> ustr option) list" where
  "patterns_to_remove =
     [opener (lit ''Of course''),
      opener (lit ''Absolutely''),
      opener (lit ''No problem''),
      opener (lit ''You got it''),
      opener (lit ''Sure''),
      opener (lit ''Certainly''),
      here_is,
      upto_dot (lit ''Let'' @ [39] @ lit ''s continue''),
      upto_dot (lit ''Let'' @ [39] @ lit ''s keep going''),
      upto_dot (lit ''Let'' @ [39] @ lit ''s pick up where we left off''),
      upto_dot (lit ''My apologies''),
      upto_dot (lit ''Apologies for'')]"

text \<open>
  \<^verbatim>\<open>re.sub(pattern, "", text, flags=re.IGNORECASE | re.MULTILINE)\<close>: the text is read
  from the left; where a line starts (at the start of the text and after each newline,
  \<open>bol\<close>) and the pattern matches, the match is dropped and reading goes on after it. An
  empty match would be replaced by the empty string, which changes nothing.
\<close>

fun re_sub_bol :: "(ustr \<Rightarrow> ustr option) \<Rightarrow> bool \<Rightarrow> ustr \<Rightarrow> ustr" where
  "re_sub_bol m bol [] = []"
| "re_sub_bol m bol (c # cs) =
     (case (if bol then m (c # cs) else None) of
        None \<Rightarrow> c # re_sub_bol m (c = 10) cs
      | Some r \<Rightarrow>
          if length r \<le> length cs
          then re_sub_bol m ((c # cs) ! (length cs - length r) = 10) r
          else c # re_sub_bol m (c = 10) cs)"

definition clean_response_text :: "ustr \<Rightarrow> ustr" where
  "clean_response_text text = py_strip (fold (\<lambda>pattern t. re_sub_bol pattern True t) patterns_to_remove text)"

text \<open>
  \<^verbatim>\<open>Group\s+(\d+)\<close> at the start of \<open>s\<close> (this pattern is case-sensitive): group 1 and
  the text after the match.
\<close>

definition match_group :: "ustr \<Rightarrow> (ustr \<times> ustr) option" where
  "match_group s =
     (case strip_prefix (lit ''Group'') s of
        None \<Rightarrow> None
      | Some r \<Rightarrow>
          (let ws = takeWhile py_isspace r; r1 = dropWhile py_isspace r;
               ds = takeWhile py_isdecimal r1; r2 = dropWhile py_isdecimal r1
           in if ws \<noteq> [] \<and> ds \<noteq> [] then Some (ds, r2) else None))"

lemma strip_prefix_length: "strip_prefix p s = Some r \<Longrightarrow> length r + length p = length s"
  by (induction p s rule: strip_prefix.induct) (auto split: if_splits)

lemma match_group_shorter: "match_group s = Some (ds, r) \<Longrightarrow> length r < length s"
proof -
  assume m: "match_group s = Some (ds, r)"
  then obtain t where t: "strip_prefix (lit ''Group'') s = Some t"
    by (auto simp: match_group_def split: option.splits)
  from m t have "r = dropWhile py_isdecimal (dropWhile py_isspace t)"
    by (auto simp: match_group_def Let_def split: if_splits)
  then have "length r \<le> length t"
    by (metis length_dropWhile_le order_trans)
  moreover from t have "length t < length s"
    using strip_prefix_length [OF t] by (simp add: lit_def)
  ultimately show ?thesis by simp
qed

text \<open>
  \<^verbatim>\<open>re.split(r'Group\s+(\d+)', text)\<close>: the text before the first marker, then for each
  marker its number and the text up to the next marker.
\<close>

function re_split :: "ustr \<Rightarrow> ustr \<Rightarrow> ustr list" where
  "re_split cur [] = [cur]"
| "re_split cur (c # cs) =
     (case match_group (c # cs) of
        None \<Rightarrow> re_split (cur @ [c]) cs
      | Some (ds, r) \<Rightarrow> cur # ds # re_split [] r)"
  by pat_completeness auto
termination
  by (relation "measure (\<lambda>(cur, s). length s)") (auto dest: match_group_shorter)

section \<open>The extractor\<close>

record vocab_entry =
  word :: ustr
  mnemonic :: ustr
  defn :: ustr

record vocab_group =
  number :: int
  entries :: "vocab_entry list"

text \<open>
  The state of the loop over the lines of a group: the entries appended so far and the
  entry in progress, whose three parts are \<^verbatim>\<open>None\<close> or a string.
\<close>

record line_state =
  appended :: "vocab_entry list"
  current_word :: "ustr option"
  current_mnemonic :: "ustr option"
  current_definition :: "ustr option"

text \<open>Python's truth value of \<^verbatim>\<open>None\<close> or a string, and \<^verbatim>\<open>x or ''\<close>.\<close>

definition truthy :: "ustr option \<Rightarrow> bool" where
  "truthy x = (case x of None \<Rightarrow> False | Some s \<Rightarrow> s \<noteq> [])"

definition or_empty :: "ustr option \<Rightarrow> ustr" where
  "or_empty x = (case x of None \<Rightarrow> [] | Some s \<Rightarrow> s)"

definition current_entry :: "ustr \<Rightarrow> line_state \<Rightarrow> vocab_entry" where
  "current_entry w st =
     \<lparr>word = w, mnemonic = or_empty (current_mnemonic st), defn = or_empty (current_definition st)\<rparr>"

text \<open>
  The guarded append of lines 111, 144 and 170:
  \<^verbatim>\<open>if current_word and (current_definition or current_mnemonic): entries.append(...)\<close>
\<close>

definition save_if_complete :: "line_state \<Rightarrow> vocab_entry list" where
  "save_if_complete st =
     (case current_word st of
        None \<Rightarrow> appended st
      | Some w \<Rightarrow>
          if w \<noteq> [] \<and> (truthy (current_definition st) \<or> truthy (current_mnemonic st))
          then appended st @ [current_entry w st]
          else appended st)"

text \<open>The body of \<^verbatim>\<open>for line in lines\<close>, with the branches in the order of the source.\<close>

definition process_line :: "ustr \<Rightarrow> line_state \<Rightarrow> line_state" where
  "process_line raw st =
     (let line = py_strip raw in
      if line = [] then st
      else
        let word_mnemonic_match = match_word_mnemonic line;
            word_def_match = match_word_def line
        in
        (case word_mnemonic_match of
           Some (g1, g2) \<Rightarrow>
             (let es = save_if_complete st;
                  mnemonic_and_maybe_def = py_strip g2
              in (case def_search mnemonic_and_maybe_def of
                    Some d \<Rightarrow>
                      \<lparr>appended = es, current_word = Some (py_strip g1),
                       current_mnemonic =
                         Some (rstrip_dot (py_strip (cut_definition mnemonic_and_maybe_def))),
                       current_definition = Some (rstrip_dot (py_strip d))\<rparr>
                  | None \<Rightarrow>
                      \<lparr>appended = es, current_word = Some (py_strip g1),
                       current_mnemonic = Some (rstrip_dot mnemonic_and_maybe_def),
                       current_definition = None\<rparr>))
         | None \<Rightarrow>
             if lower_startswith (lit ''mnemonic:'') line then
               st\<lparr>current_mnemonic :=
                    Some (rstrip_dot (py_strip (sub_prefix (lit ''mnemonic:'') line)))\<rparr>
             else if lower_startswith (lit ''definition:'') line then
               st\<lparr>current_definition :=
                    Some (rstrip_dot (py_strip (sub_prefix (lit ''definition:'') line)))\<rparr>
             else
               (case word_def_match of
                  None \<Rightarrow> st
                | Some (g1, g2) \<Rightarrow>
                    (case current_word st of
                       None \<Rightarrow>
                         \<lparr>appended = save_if_complete st, current_word = Some (py_strip g1),
                          current_mnemonic = None,
                          current_definition = Some (rstrip_dot (py_strip g2))\<rparr>
                     | Some w \<Rightarrow>
                         \<lparr>appended = appended st @ [current_entry w st],
                          current_word = Some (py_strip g1),
                          current_mnemonic = None,
                          current_definition = Some (rstrip_dot (py_strip g2))\<rparr>))))"

definition initial_state :: line_state where
  "initial_state =
     \<lparr>appended = [], current_word = None, current_mnemonic = None, current_definition = None\<rparr>"

text \<open>The entries of one group: the loop over its lines and the append after the last line.\<close>

definition parse_entries :: "ustr \<Rightarrow> vocab_entry list" where
  "parse_entries group_content =
     save_if_complete (fold process_line (split_lines (py_strip group_content)) initial_state)"

text \<open>
  The \<^verbatim>\<open>while i < len(parts) - 1\<close> loop, on the parts from index 1 on: it takes a number
  and a content at a time, as long as both are there. \<^verbatim>\<open>int\<close> may raise.
\<close>

fun parse_parts :: "nat \<Rightarrow> vocab_group list \<Rightarrow> ustr list \<Rightarrow> error + vocab_group list" where
  "parse_parts lim groups (num # content # rest) =
     (case py_int lim num of
        Inl e \<Rightarrow> Inl e
      | Inr group_num \<Rightarrow>
          (let es = parse_entries content
           in if es \<noteq> []
              then parse_parts lim (groups @ [\<lparr>number = group_num, entries = es\<rparr>]) rest
              else parse_parts lim groups rest))"
| "parse_parts lim groups parts = Inr groups"

definition parse_response :: "nat \<Rightarrow> ustr \<Rightarrow> error + vocab_group list" where
  "parse_response lim text =
     parse_parts lim [] (drop 1 (re_split [] (clean_response_text text)))"

text \<open>
  The loop of \<^verbatim>\<open>main\<close> over the responses, on the pair of \<^verbatim>\<open>all_groups\<close> and
  \<^verbatim>\<open>seen_groups\<close>; an exception of \<^verbatim>\<open>parse_response\<close> ends the run.
\<close>

fun add_groups :: "vocab_group list \<Rightarrow> vocab_group list \<times> int set \<Rightarrow> vocab_group list \<times> int set" where
  "add_groups [] st = st"
| "add_groups (g # gs) (all_groups, seen_groups) =
     (if number g \<notin> seen_groups
      then add_groups gs (all_groups @ [g], insert (number g) seen_groups)
      else add_groups gs (all_groups, seen_groups))"

fun main_loop :: "nat \<Rightarrow> ustr list \<Rightarrow> vocab_group list \<times> int set \<Rightarrow> error + vocab_group list \<times> int set" where
  "main_loop lim [] st = Inr st"
| "main_loop lim (response # responses) st =
     (case parse_response lim response of
        Inl e \<Rightarrow> Inl e
      | Inr groups \<Rightarrow> main_loop lim responses (add_groups groups st))"

definition main_groups :: "nat \<Rightarrow> ustr list \<Rightarrow> error + vocab_group list" where
  "main_groups lim responses =
     (case main_loop lim responses ([], {}) of
        Inl e \<Rightarrow> Inl e
      | Inr (all_groups, seen_groups) \<Rightarrow> Inr all_groups)"

section \<open>The renderer\<close>

text \<open>
  \<^verbatim>\<open>word.title()\<close>: a character after a cased one is lowered, any other is put in
  title case. The case tables are given for the characters a word can hold, the ASCII
  letters and U+0130, U+0131, U+017F, U+212A (theorem \<open>word_characters\<close> below shows
  that a word holds these and white space only); any other character is taken as
  uncased and left as it is. The lower case of U+0130 is \<^verbatim>\<open>i\<close> followed by U+0307.
\<close>

definition title_full :: "cp \<Rightarrow> ustr" where
  "title_full c =
     (if 97 \<le> c \<and> c \<le> 122 then [c - 32]
      else if c = 305 then [73]
      else if c = 383 then [83]
      else [c])"

definition lower_full :: "cp \<Rightarrow> ustr" where
  "lower_full c =
     (if 65 \<le> c \<and> c \<le> 90 then [c + 32]
      else if c = 304 then [105, 775]
      else if c = 8490 then [107]
      else [c])"

fun title_from :: "bool \<Rightarrow> ustr \<Rightarrow> ustr" where
  "title_from previous_is_cased [] = []"
| "title_from previous_is_cased (c # cs) =
     (if previous_is_cased then lower_full c else title_full c) @ title_from (alpha_ci c) cs"

definition py_title :: "ustr \<Rightarrow> ustr" where
  "py_title s = title_from False s"

text \<open>
  \<^verbatim>\<open>s.replace('&', '&amp;').replace('<', '&lt;').replace('>', '&gt;')\<close>
\<close>

definition html_escape :: "ustr \<Rightarrow> ustr" where
  "html_escape s =
     py_replace 62 (lit ''&gt;'') (py_replace 60 (lit ''&lt;'') (py_replace 38 (lit ''&amp;'') s))"

text \<open>The pieces of the document template of \<^verbatim>\<open>generate_html\<close>, as the source has them. The head, up to the number of words:\<close>

definition html_head_1 :: ustr where
  \<open>html_head_1 = concat
    [lit ''<!DOCTYPE html>\<newline>'',
     lit ''<html lang="en">\<newline>'',
     lit ''<head>\<newline>'',
     lit ''  <meta charset="UTF-8">\<newline>'',
     lit ''  <meta name="viewport" content="width=device-width, initial-scale=1.0">\<newline>'',
     lit ''  <title>GRE Vocabulary - Complete Reference</title>\<newline>'',
     lit ''  <style>\<newline>'',
     lit ''    * {\<newline>'',
     lit ''      margin: 0;\<newline>'',
     lit ''      padding: 0;\<newline>'',
     lit ''      box-sizing: border-box;\<newline>'',
     lit ''    }\<newline>'',
     lit ''    \<newline>'',
     lit ''    body {\<newline>'',
     lit ''      font-family: -apple-system, BlinkMacSystemFont, '' @ [39] @ lit ''Segoe UI'' @ [39] @ lit '', Roboto, Oxygen, Ubuntu, Cantarell, sans-serif;\<newline>'',
     lit ''      line-height: 1.6;\<newline>'',
     lit ''      color: #e8e6f0;\<newline>'',
     lit ''      background: linear-gradient(135deg, #2d3561 0%, #3d2d52 100%);\<newline>'',
     lit ''      min-height: 100vh;\<newline>'',
     lit ''      padding: 20px;\<newline>'',
     lit ''    }\<newline>'',
     lit ''    \<newline>'',
     lit ''    .container {\<newline>'',
     lit ''      max-width: 1200px;\<newline>'',
     lit ''      margin: 0 auto;\<newline>'',
     lit ''      background: #1e1e2e;\<newline>'',
     lit ''      border-radius: 12px;\<newline>'',
     lit ''      box-shadow: 0 20px 60px rgba(0,0,0,0.5);\<newline>'',
     lit ''      overflow: hidden;\<newline>'',
     lit ''    }\<newline>'',
     lit ''    \<newline>'',
     lit ''    header {\<newline>'',
     lit ''      background: #b4a7d6;\<newline>'',
     lit ''      color: #1e1e2e;\<newline>'',
     lit ''      padding: 40px;\<newline>'',
     lit ''      text-align: center;\<newline>'',
     lit ''    }\<newline>'',
     lit ''    \<newline>'',
     lit ''    header h1 {\<newline>'',
     lit ''      font-size: 2.5em;\<newline>'',
     lit ''      margin-bottom: 10px;\<newline>'',
     lit ''      font-weight: 700;\<newline>'',
     lit ''    }\<newline>'',
     lit ''    \<newline>'',
     lit ''    header p {\<newline>'',
     lit ''      font-size: 1.2em;\<newline>'',
     lit ''      opacity: 0.85;\<newline>'',
     lit ''    }\<newline>'',
     lit ''    \<newline>'',
     lit ''    .toc {\<newline>'',
     lit ''      background: #252535;\<newline>'',
     lit ''      padding: 30px 40px;\<newline>'',
     lit ''      border-bottom: 3px solid #8b9dc3;\<newline>'',
     lit ''    }\<newline>'',
     lit ''    \<newline>'',
     lit ''    .toc h2 {\<newline>'',
     lit ''      color: #b4a7d6;\<newline>'',
     lit ''      margin-bottom: 20px;\<newline>'',
     lit ''      font-size: 1.8em;\<newline>'',
     lit ''    }\<newline>'',
     lit ''    \<newline>'',
     lit ''    .toc-episodes {\<newline>'',
     lit ''      display: grid;\<newline>'',
     lit ''      grid-template-columns: repeat(auto-fit, minmax(300px, 1fr));\<newline>'',
     lit ''      gap: 15px;\<newline>'',
     lit ''    }\<newline>'',
     lit ''    \<newline>'',
     lit ''    .toc-episode {\<newline>'',
     lit ''      background: #2a2a3e;\<newline>'',
     lit ''      padding: 15px 20px;\<newline>'',
     lit ''      border-radius: 8px;\<newline>'',
     lit ''      border-left: 4px solid #8b9dc3;\<newline>'',
     lit ''      transition: transform 0.2s, box-shadow 0.2s;\<newline>'',
     lit ''    }\<newline>'',
     lit ''    \<newline>'',
     lit ''    .toc-episode:hover {\<newline>'',
     lit ''      transform: translateX(5px);\<newline>'',
     lit ''      box-shadow: 0 4px 12px rgba(139, 157, 195, 0.3);\<newline>'',
     lit ''    }\<newline>'',
     lit ''    \<newline>'',
     lit ''    .toc-episode h3 {\<newline>'',
     lit ''      color: #a8c0ff;\<newline>'',
     lit ''      margin-bottom: 10px;\<newline>'',
     lit ''      font-size: 1.2em;\<newline>'',
     lit ''    }\<newline>'',
     lit ''    \<newline>'',
     lit ''    .toc-episode ul {\<newline>'',
     lit ''      list-style: none;\<newline>'',
     lit ''      display: flex;\<newline>'',
     lit ''      flex-wrap: wrap;\<newline>'',
     lit ''      gap: 8px;\<newline>'',
     lit ''    }\<newline>'',
     lit ''    \<newline>'',
     lit ''    .toc-episode a {\<newline>'',
     lit ''      color: #deb4e8;\<newline>'',
     lit ''      text-decoration: none;\<newline>'',
     lit ''      font-size: 0.9em;\<newline>'',
     lit ''      padding: 4px 10px;\<newline>'',
     lit ''      background: #353545;\<newline>'',
     lit ''      border-radius: 4px;\<newline>'',
     lit ''      transition: background 0.2s;\<newline>'',
     lit ''    }\<newline>'',
     lit ''    \<newline>'',
     lit ''    .toc-episode a:hover {\<newline>'',
     lit ''      background: #8b9dc3;\<newline>'',
     lit ''      color: #1e1e2e;\<newline>'',
     lit ''    }\<newline>'',
     lit ''    \<newline>'',
     lit ''    .episode {\<newline>'',
     lit ''      padding: 40px;\<newline>'',
     lit ''      border-bottom: 2px solid #2a2a3e;\<newline>'',
     lit ''    }\<newline>'',
     lit ''    \<newline>'',
     lit ''    .episode:last-child {\<newline>'',
     lit ''      border-bottom: none;\<newline>'',
     lit ''    }\<newline>'',
     lit ''    \<newline>'',
     lit ''    .episode-header {\<newline>'',
     lit ''      text-align: center;\<newline>'',
     lit ''      margin-bottom: 30px;\<newline>'',
     lit ''      padding-bottom: 20px;\<newline>'',
     lit ''      border-bottom: 3px solid #8b9dc3;\<newline>'',
     lit ''    }\<newline>'',
     lit ''    \<newline>'',
     lit ''    .episode-header h2 {\<newline>'',
     lit ''      color: #a8c0ff;\<newline>'',
     lit ''      font-size: 2em;\<newline>'',
     lit ''      margin-bottom: 10px;\<newline>'',
     lit ''    }\<newline>'',
     lit ''    \<newline>'',
     lit ''    .episode-header p {\<newline>'',
     lit ''      color: #b4a7d6;\<newline>'',
     lit ''      font-size: 1.1em;\<newline>'',
     lit ''    }\<newline>'',
     lit ''    \<newline>'',
     lit ''    .group {\<newline>'',
     lit ''      margin-bottom: 40px;\<newline>'',
     lit ''      background: #252535;\<newline>'',
     lit ''      border-radius: 8px;\<newline>'',
     lit ''      padding: 20px;\<newline>'',
     lit ''      border-left: 5px solid #deb4e8;\<newline>'',
     lit ''    }\<newline>'',
     lit ''    \<newline>'',
     lit ''    .group-title {\<newline>'',
     lit ''      color: #deb4e8;\<newline>'',
     lit ''      font-size: 1.5em;\<newline>'',
     lit ''      margin-bottom: 15px;\<newline>'',
     lit ''      font-weight: 600;\<newline>'',
     lit ''    }\<newline>'',
     lit ''    \<newline>'',
     lit ''    table {\<newline>'',
     lit ''      width: 100%;\<newline>'',
     lit ''      border-collapse: collapse;\<newline>'',
     lit ''      background: #2a2a3e;\<newline>'',
     lit ''      border-radius: 6px;\<newline>'',
     lit ''      overflow: hidden;\<newline>'',
     lit ''    }\<newline>'',
     lit ''    \<newline>'',
     lit ''    th {\<newline>'',
     lit ''      background: #b4a7d6;\<newline>'',
     lit ''      color: #1e1e2e;\<newline>'',
     lit ''      padding: 12px;\<newline>'',
     lit ''      text-align: left;\<newline>'',
     lit ''      font-weight: 600;\<newline>'',
     lit ''      font-size: 1.1em;\<newline>'',
     lit ''    }\<newline>'',
     lit ''    \<newline>'',
     lit ''    td {\<newline>'',
     lit ''      padding: 10px 12px;\<newline>'',
     lit ''      border-bottom: 1px solid #353545;\<newline>'',
     lit ''      color: #e8e6f0;\<newline>'',
     lit ''    }\<newline>'',
     lit ''    \<newline>'',
     lit ''    tr:last-child td {\<newline>'',
     lit ''      border-bottom: none;\<newline>'',
     lit ''    }\<newline>'',
     lit ''    \<newline>'',
     lit ''    tr:hover {\<newline>'',
     lit ''      background: #2f2f45;\<newline>'',
     lit ''    }\<newline>'',
     lit ''    \<newline>'',
     lit ''    td:first-child {\<newline>'',
     lit ''      font-weight: 600;\<newline>'',
     lit ''      color: #a8c0ff;\<newline>'',
     lit ''      width: 20%;\<newline>'',
     lit ''    }\<newline>'',
     lit ''    \<newline>'',
     lit ''    td:nth-child(2) {\<newline>'',
     lit ''      color: #c9c4d9;\<newline>'',
     lit ''      width: 50%;\<newline>'',
     lit ''      font-style: italic;\<newline>'',
     lit ''    }\<newline>'',
     lit ''    \<newline>'',
     lit ''    td:last-child {\<newline>'',
     lit ''      color: #e8e6f0;\<newline>'',
     lit ''      width: 30%;\<newline>'',
     lit ''    }\<newline>'',
     lit ''    \<newline>'',
     lit ''    .back-to-top {\<newline>'',
     lit ''      position: fixed;\<newline>'',
     lit ''      bottom: 30px;\<newline>'',
     lit ''      right: 30px;\<newline>'',
     lit ''      background: linear-gradient(135deg, #8b9dc3 0%, #b4a7d6 100%);\<newline>'',
     lit ''      color: #1e1e2e;\<newline>'',
     lit ''      width: 50px;\<newline>'',
     lit ''      height: 50px;\<newline>'',
     lit ''      border-radius: 50%;\<newline>'',
     lit ''      display: flex;\<newline>'',
     lit ''      align-items: center;\<newline>'',
     lit ''      justify-content: center;\<newline>'',
     lit ''      text-decoration: none;\<newline>'',
     lit ''      font-size: 1.5em;\<newline>'',
     lit ''      box-shadow: 0 4px 12px rgba(139, 157, 195, 0.4);\<newline>'',
     lit ''      transition: transform 0.2s;\<newline>'',
     lit ''      font-weight: bold;\<newline>'',
     lit ''    }\<newline>'',
     lit ''    \<newline>'',
     lit ''    .back-to-top:hover {\<newline>'',
     lit ''      transform: scale(1.1);\<newline>'',
     lit ''    }\<newline>'',
     lit ''    \<newline>'',
     lit ''    @media (max-width: 768px) {\<newline>'',
     lit ''      body {\<newline>'',
     lit ''        padding: 10px;\<newline>'',
     lit ''      }\<newline>'',
     lit ''      \<newline>'',
     lit ''      header {\<newline>'',
     lit ''        padding: 20px;\<newline>'',
     lit ''      }\<newline>'',
     lit ''      \<newline>'',
     lit ''      header h1 {\<newline>'',
     lit ''        font-size: 1.8em;\<newline>'',
     lit ''      }\<newline>'',
     lit ''      \<newline>'',
     lit ''      .toc, .episode {\<newline>'',
     lit ''        padding: 20px;\<newline>'',
     lit ''      }\<newline>'',
     lit ''      \<newline>'',
     lit ''      .toc-episodes {\<newline>'',
     lit ''        grid-template-columns: 1fr;\<newline>'',
     lit ''      }\<newline>'',
     lit ''      \<newline>'',
     lit ''      td:nth-child(2) {\<newline>'',
     lit ''        display: none;\<newline>'',
     lit ''      }\<newline>'',
     lit ''      \<newline>'',
     lit ''      td:first-child {\<newline>'',
     lit ''        width: 40%;\<newline>'',
     lit ''      }\<newline>'',
     lit ''      \<newline>'',
     lit ''      td:last-child {\<newline>'',
     lit ''        width: 60%;\<newline>'',
     lit ''      }\<newline>'',
     lit ''    }\<newline>'',
     lit ''  </style>\<newline>'',
     lit ''</head>\<newline>'',
     lit ''<body>\<newline>'',
     lit ''  <div class="container">\<newline>'',
     lit ''    <header>\<newline>'',
     lit ''      <h1>GRE Vocabulary Reference</h1>\<newline>'',
     lit ''      <p>Complete collection of '']\<close>

definition html_head_2 :: ustr where
  \<open>html_head_2 = lit '' essential words across ''\<close>

definition html_head_3 :: ustr where
  \<open>html_head_3 = concat
    [lit '' groups</p>\<newline>'',
     lit ''    </header>\<newline>'',
     lit ''    \<newline>'',
     lit ''    <nav class="toc" id="toc">\<newline>'',
     lit ''      <h2>'' @ [240, 376, 8220, 353] @ lit '' Table of Contents</h2>\<newline>'',
     lit ''      <div class="toc-episodes">\<newline>'']\<close>

text \<open>A block of the table of contents: before the name, between name and description, after the description.\<close>

definition toc_open_1 :: ustr where
  \<open>toc_open_1 = concat
    [lit ''        <div class="toc-episode">\<newline>'',
     lit ''          <h3>'']\<close>

definition toc_open_2 :: ustr where
  \<open>toc_open_2 = concat
    [lit ''</h3>\<newline>'',
     lit ''          <p style="margin-bottom: 10px; color: #b4a7d6;">'']\<close>

definition toc_open_3 :: ustr where
  \<open>toc_open_3 = concat
    [lit ''</p>\<newline>'',
     lit ''          <ul>\<newline>'']\<close>

text \<open>A link of the table of contents, around the two places of the number.\<close>

definition toc_link_1 :: ustr where
  \<open>toc_link_1 = lit ''            <li><a href="#group''\<close>

definition toc_link_2 :: ustr where
  \<open>toc_link_2 = lit ''">Group ''\<close>

definition toc_link_3 :: ustr where
  \<open>toc_link_3 = lit ''</a></li>\<newline>''\<close>

definition toc_close :: ustr where
  \<open>toc_close = concat
    [lit ''          </ul>\<newline>'',
     lit ''        </div>\<newline>'']\<close>

definition nav_close :: ustr where
  \<open>nav_close = concat
    [lit ''      </div>\<newline>'',
     lit ''    </nav>\<newline>'']\<close>

text \<open>A section of the body, a group in it, a row of its table.\<close>

definition section_open_1 :: ustr where
  \<open>section_open_1 = concat
    [lit ''\<newline>'',
     lit ''    <section class="episode">\<newline>'',
     lit ''      <div class="episode-header">\<newline>'',
     lit ''        <h2>'']\<close>

definition section_open_2 :: ustr where
  \<open>section_open_2 = concat
    [lit ''</h2>\<newline>'',
     lit ''        <p>'']\<close>

definition section_open_3 :: ustr where
  \<open>section_open_3 = concat
    [lit ''</p>\<newline>'',
     lit ''      </div>\<newline>'']\<close>

definition group_open_1 :: ustr where
  \<open>group_open_1 = concat
    [lit ''\<newline>'',
     lit ''      <div class="group" id="group'']\<close>

definition group_open_2 :: ustr where
  \<open>group_open_2 = concat
    [lit ''">\<newline>'',
     lit ''        <h3 class="group-title">Group '']\<close>

definition group_open_3 :: ustr where
  \<open>group_open_3 = concat
    [lit ''</h3>\<newline>'',
     lit ''        <table>\<newline>'',
     lit ''          <thead>\<newline>'',
     lit ''            <tr>\<newline>'',
     lit ''              <th>Word</th>\<newline>'',
     lit ''              <th>Mnemonic</th>\<newline>'',
     lit ''              <th>Definition</th>\<newline>'',
     lit ''            </tr>\<newline>'',
     lit ''          </thead>\<newline>'',
     lit ''          <tbody>\<newline>'']\<close>

definition row_1 :: ustr where
  \<open>row_1 = lit ''            <tr><td>''\<close>

definition row_2 :: ustr where
  \<open>row_2 = lit ''</td><td>''\<close>

definition row_3 :: ustr where
  \<open>row_3 = lit ''</td><td>''\<close>

definition row_4 :: ustr where
  \<open>row_4 = lit ''</td></tr>\<newline>''\<close>

definition group_close :: ustr where
  \<open>group_close = concat
    [lit ''          </tbody>\<newline>'',
     lit ''        </table>\<newline>'',
     lit ''      </div>\<newline>'']\<close>

definition section_close :: ustr where
  \<open>section_close = lit ''    </section>\<newline>''\<close>

definition html_tail :: ustr where
  \<open>html_tail = concat
    [lit ''  </div>\<newline>'',
     lit ''  \<newline>'',
     lit ''  <a href="#toc" class="back-to-top">'' @ [226, 8224, 8216] @ lit ''</a>\<newline>'',
     lit ''</body>\<newline>'',
     lit ''</html>\<newline>'']\<close>

text \<open>The seven episodes: name, description and \<^verbatim>\<open>range\<close> of group numbers.\<close>

record episode =
  ep_name :: ustr
  ep_desc :: ustr
  ep_groups :: "int list"

definition episodes :: "episode list" where
  \<open>episodes =
    [\<lparr>ep_name = lit ''Episode 1: Groups 1'' @ [226, 8364, 8220] @ lit ''4'', ep_desc = lit ''Foundation vocabulary'', ep_groups = [1..4]\<rparr>,
     \<lparr>ep_name = lit ''Episode 2: Groups 5'' @ [226, 8364, 8220] @ lit ''9'', ep_desc = lit ''Building blocks'', ep_groups = [5..9]\<rparr>,
     \<lparr>ep_name = lit ''Episode 3: Groups 10'' @ [226, 8364, 8220] @ lit ''14'', ep_desc = lit ''Advanced concepts'', ep_groups = [10..14]\<rparr>,
     \<lparr>ep_name = lit ''Episode 4: Groups 15'' @ [226, 8364, 8220] @ lit ''19'', ep_desc = lit ''Expanding horizons'', ep_groups = [15..19]\<rparr>,
     \<lparr>ep_name = lit ''Episode 5: Groups 20'' @ [226, 8364, 8220] @ lit ''24'', ep_desc = lit ''Deepening knowledge'', ep_groups = [20..24]\<rparr>,
     \<lparr>ep_name = lit ''Episode 6: Groups 25'' @ [226, 8364, 8220] @ lit ''29'', ep_desc = lit ''Mastery level'', ep_groups = [25..29]\<rparr>,
     \<lparr>ep_name = lit ''Episode 7: Groups 30'' @ [226, 8364, 8220] @ lit ''34'', ep_desc = lit ''Expert vocabulary'', ep_groups = [30..34]\<rparr>]\<close>

text \<open>The row of an entry (lines 526 to 534).\<close>

definition render_row :: "vocab_entry \<Rightarrow> ustr" where
  "render_row entry =
     (let w = py_title (word entry);
          m = html_escape (mnemonic entry);
          d = html_escape (defn entry)
      in row_1 @ w @ row_2 @ m @ row_3 @ d @ row_4)"

text \<open>
  The loops of \<^verbatim>\<open>generate_html\<close> are folds over the document built so far, to which
  each step appends. A block of the table of contents (lines 480 to 491):
\<close>

definition toc_episode :: "(int \<rightharpoonup> vocab_group) \<Rightarrow> episode \<Rightarrow> ustr \<Rightarrow> ustr" where
  "toc_episode group_lookup ep html =
     (let html1 = html @ toc_open_1 @ ep_name ep @ toc_open_2 @ ep_desc ep @ toc_open_3;
          html2 = fold (\<lambda>gnum h.
                     if group_lookup gnum \<noteq> None
                     then h @ toc_link_1 @ py_str gnum @ toc_link_2 @ py_str gnum @ toc_link_3
                     else h) (ep_groups ep) html1
      in html2 @ toc_close)"

text \<open>A group of the body (lines 511 to 539).\<close>

definition render_group :: "vocab_group \<Rightarrow> ustr \<Rightarrow> ustr" where
  "render_group g html =
     (let html1 = html @ group_open_1 @ py_str (number g) @ group_open_2 @
                  py_str (number g) @ group_open_3;
          html2 = fold (\<lambda>entry h. h @ render_row entry) (entries g) html1
      in html2 @ group_close)"

text \<open>
  \<^verbatim>\<open>[group_lookup[gnum] for gnum in episode['groups'] if gnum in group_lookup]\<close>
\<close>

definition episode_groups :: "(int \<rightharpoonup> vocab_group) \<Rightarrow> episode \<Rightarrow> vocab_group list" where
  "episode_groups group_lookup ep = List.map_filter group_lookup (ep_groups ep)"

text \<open>A section of the body (lines 498 to 542); an episode without groups is skipped.\<close>

definition body_episode :: "(int \<rightharpoonup> vocab_group) \<Rightarrow> episode \<Rightarrow> ustr \<Rightarrow> ustr" where
  "body_episode group_lookup ep html =
     (let egs = episode_groups group_lookup ep
      in if egs = [] then html
         else fold render_group egs
                (html @ section_open_1 @ ep_name ep @ section_open_2 @ ep_desc ep @ section_open_3)
              @ section_close)"

text \<open>
  \<^verbatim>\<open>{g['number']: g for g in all_groups}\<close>: a later group replaces an earlier one of
  the same number.
\<close>

definition make_lookup :: "vocab_group list \<Rightarrow> (int \<rightharpoonup> vocab_group)" where
  "make_lookup all_groups = fold (\<lambda>g m. m(number g \<mapsto> g)) all_groups Map.empty"

definition generate_html :: "vocab_group list \<Rightarrow> ustr" where
  "generate_html gs =
     (let all_groups = sort_key number gs;
          total_words = sum_list (map (\<lambda>g. length (entries g)) all_groups);
          group_lookup = make_lookup all_groups;
          html = html_head_1 @ py_str (int total_words) @ html_head_2 @
                 py_str (int (length all_groups)) @ html_head_3;
          html = fold (toc_episode group_lookup) episodes html;
          html = html @ nav_close;
          html = fold (body_episode group_lookup) episodes html
      in html @ html_tail)"

section \<open>What the claims speak of\<close>

text \<open>
  The groups of a list whose number is neither in \<open>seen\<close> nor borne by an earlier group
  of the list: what a first-write-wins policy keeps.
\<close>

fun fresh :: "int set \<Rightarrow> vocab_group list \<Rightarrow> vocab_group list" where
  "fresh seen [] = []"
| "fresh seen (g # gs) =
     (if number g \<in> seen then fresh seen gs else g # fresh (insert (number g) seen) gs)"

text \<open>
  Escaping as the specification words it, character by character: \<^verbatim>\<open>&\<close>, \<^verbatim>\<open><\<close> and
  \<^verbatim>\<open>>\<close> become their entities and nothing else changes.
\<close>

definition escape_char :: "cp \<Rightarrow> ustr" where
  "escape_char c =
     (if c = 38 then lit ''&amp;'' else if c = 60 then lit ''&lt;''
      else if c = 62 then lit ''&gt;'' else [c])"

definition escape_spec :: "ustr \<Rightarrow> ustr" where
  "escape_spec s = concat (map escape_char s)"

text \<open>
  The numbers an episode links to, as the specification words it: those of its range
  that are numbers of groups of the corpus.
\<close>

definition toc_numbers :: "vocab_group list \<Rightarrow> episode \<Rightarrow> int list" where
  "toc_numbers corpus ep = filter (\<lambda>n. n \<in> number ` set corpus) (ep_groups ep)"

text \<open>
  The document as the specification describes it. A link of the table of contents, and
  the block of an episode: its heading, then the links to the numbers of its range that
  the corpus has, in the order of the range.
\<close>

definition toc_link :: "int \<Rightarrow> ustr" where
  "toc_link n = toc_link_1 @ py_str n @ toc_link_2 @ py_str n @ toc_link_3"

definition toc_block :: "vocab_group list \<Rightarrow> episode \<Rightarrow> ustr" where
  "toc_block corpus ep =
     toc_open_1 @ ep_name ep @ toc_open_2 @ ep_desc ep @ toc_open_3 @
     concat (map toc_link (toc_numbers corpus ep)) @ toc_close"

text \<open>
  The table of a group, a row for each entry, and the section of an episode in the body:
  nothing when the corpus has no number of its range, else its heading and the tables
  of its groups. The group of a number is the one the lookup table of the renderer holds.
\<close>

definition group_table :: "vocab_group \<Rightarrow> ustr" where
  "group_table g =
     group_open_1 @ py_str (number g) @ group_open_2 @ py_str (number g) @ group_open_3 @
     concat (map render_row (entries g)) @ group_close"

definition body_section :: "vocab_group list \<Rightarrow> episode \<Rightarrow> ustr" where
  "body_section corpus ep =
     (if toc_numbers corpus ep = [] then []
      else section_open_1 @ ep_name ep @ section_open_2 @ ep_desc ep @ section_open_3 @
           concat (map (\<lambda>n. group_table (the (make_lookup (sort_key number corpus) n)))
                     (toc_numbers corpus ep)) @
           section_close)"

text \<open>The number strings that the loop of \<^verbatim>\<open>parse_response\<close> hands to \<^verbatim>\<open>int\<close>.\<close>

fun group_numbers :: "ustr list \<Rightarrow> ustr list" where
  "group_numbers (num # content # rest) = num # group_numbers rest"
| "group_numbers parts = []"

text \<open>A text that carries no trailing full stop and no leading white space.\<close>

definition tidy :: "ustr \<Rightarrow> bool" where
  "tidy s \<longleftrightarrow> s = [] \<or> (last s \<noteq> 46 \<and> \<not> py_isspace (hd s))"

text \<open>
  A word as the claims describe it: one run of letters, or two runs of letters with
  white space between them. A letter is what the class \<^verbatim>\<open>[a-zA-Z]\<close> accepts under
  \<^verbatim>\<open>re.IGNORECASE\<close>. Then what holds of an entry at every point of the line loop: its
  word has that shape, so it is made of such letters and of white space, and its two
  texts are tidy.
\<close>

definition one_or_two_tokens :: "ustr \<Rightarrow> bool" where
  "one_or_two_tokens w \<longleftrightarrow>
     (let l1 = takeWhile alpha_ci w; r = dropWhile alpha_ci w;
          sp = takeWhile py_isspace r; l2 = dropWhile py_isspace r
      in l1 \<noteq> [] \<and> (r = [] \<or> (sp \<noteq> [] \<and> l2 \<noteq> [] \<and> dropWhile alpha_ci l2 = [])))"

definition wordy :: "ustr \<Rightarrow> bool" where
  "wordy w \<longleftrightarrow> (\<forall>c\<in>set w. alpha_ci c \<or> py_isspace c)"

definition good_entry :: "vocab_entry \<Rightarrow> bool" where
  "good_entry e \<longleftrightarrow>
     one_or_two_tokens (word e) \<and> wordy (word e) \<and> tidy (mnemonic e) \<and> tidy (defn e)"

definition good_state :: "line_state \<Rightarrow> bool" where
  "good_state st \<longleftrightarrow>
     (\<forall>e\<in>set (appended st). good_entry e) \<and>
     (\<forall>w. current_word st = Some w \<longrightarrow> one_or_two_tokens w \<and> wordy w) \<and>
     (\<forall>m. current_mnemonic st = Some m \<longrightarrow> tidy m) \<and>
     (\<forall>d. current_definition st = Some d \<longrightarrow> tidy d)"

section \<open>Evaluation\<close>

text \<open>
  The definitions a concrete run unfolds. With the weak congruence rule for \<open>let\<close> the
  simplifier evaluates a bound value before it enters the body.
\<close>

lemmas run_defs = lit_def py_isspace_def alpha_ci_def ci_char_def sre_lower_def ci_startswith_def
  py_strip_def py_lstrip_def py_rstrip_def rstrip_dot_def
  clean_response_text_def patterns_to_remove_def opener_def here_is_def here_tail_def upto_dot_def
  match_group_def py_isdecimal_def py_decimal_def digit_zeros_def
  parse_response_def py_int_def digits_value_def parse_entries_def split_lines_def initial_state_def
  process_line_def match_word_mnemonic_def match_word_def_def match_word_def ws_then_rest_def
  def_group_def sub_prefix_def lower_startswith_def ascii_lower_def save_if_complete_def
  truthy_def or_empty_def current_entry_def Let_def

section \<open>Deduplication across blocks\<close>

lemma add_groups_fresh:
  "add_groups gs (all_groups, seen) = (all_groups @ fresh seen gs, seen \<union> number ` set gs)"
  by (induction gs arbitrary: all_groups seen) auto

lemma add_groups_append: "add_groups (xs @ ys) st = add_groups ys (add_groups xs st)"
  by (induction xs st rule: add_groups.induct) auto

lemma fresh_numbers: "number ` set (fresh seen gs) = number ` set gs - seen"
  by (induction gs arbitrary: seen) auto

lemma fresh_distinct: "distinct (map number (fresh seen gs))"
  by (induction gs arbitrary: seen) (auto simp: fresh_numbers)

lemma fresh_subset: "set (fresh seen gs) \<subseteq> set gs"
  by (induction gs arbitrary: seen) auto


text \<open>
  A run of \<^verbatim>\<open>main\<close> that ends normally has parsed every block, and its corpus is what
  first-write-wins keeps of the parsed groups, in the order of the blocks.
\<close>

lemma main_loop_parsed:
  "main_loop lim bs st = Inr st' \<Longrightarrow>
     \<exists>gss. length gss = length bs \<and> (\<forall>k<length bs. parse_response lim (bs ! k) = Inr (gss ! k))
        \<and> st' = add_groups (concat gss) st"
proof (induction bs arbitrary: st)
  case Nil
  then show ?case by simp
next
  case (Cons b bs)
  from Cons.prems obtain gs where gs: "parse_response lim b = Inr gs"
    and rest: "main_loop lim bs (add_groups gs st) = Inr st'"
    by (auto split: sum.splits)
  from Cons.IH [OF rest] obtain gss where gss: "length gss = length bs"
    "\<forall>k<length bs. parse_response lim (bs ! k) = Inr (gss ! k)"
    "st' = add_groups (concat gss) (add_groups gs st)"
    by blast
  show ?case
  proof (intro exI [of _ "gs # gss"] conjI allI impI)
    show "length (gs # gss) = length (b # bs)" using gss(1) by simp
    show "st' = add_groups (concat (gs # gss)) st" using gss(3) by (simp add: add_groups_append)
    fix k assume "k < length (b # bs)"
    then show "parse_response lim ((b # bs) ! k) = Inr ((gs # gss) ! k)"
      using gs gss(2) by (cases k) auto
  qed
qed

lemma main_groups_parsed:
  assumes "main_groups lim bs = Inr corpus"
  shows "\<exists>gss. length gss = length bs \<and> (\<forall>k<length bs. parse_response lim (bs ! k) = Inr (gss ! k))
        \<and> corpus = fresh {} (concat gss)"
proof -
  from assms obtain seen where "main_loop lim bs ([], {}) = Inr (corpus, seen)"
    by (auto simp: main_groups_def split: sum.splits)
  from main_loop_parsed [OF this] show ?thesis
    by (auto simp: add_groups_fresh)
qed






lemma block_twice_1:
  \<open>parse_response 4300 (lit ''Group 1\<newline>A - x\<newline>Group 1\<newline>B - y'') =
     Inr [\<lparr>number = 1, entries = [\<lparr>word = lit ''A'', mnemonic = [], defn = lit ''x''\<rparr>]\<rparr>,
          \<lparr>number = 1, entries = [\<lparr>word = lit ''B'', mnemonic = [], defn = lit ''y''\<rparr>]\<rparr>]\<close>
  by (simp add: run_defs cong: let_weak_cong)




text \<open>
  Claim C4. Whatever the blocks, no two groups of the corpus have the same number, also
  when one block has two sections of the same number: each parsed group is checked
  against the numbers seen so far before it is appended.
\<close>

theorem unique_numbers: "main_groups lim bs = Inr corpus \<Longrightarrow> distinct (map number corpus)"
  using main_groups_parsed fresh_distinct by blast

text \<open>One block with two sections \<^verbatim>\<open>Group 1\<close>: the corpus has the first one only.\<close>

theorem unique_numbers_witness:
  \<open>main_groups 4300 [lit ''Group 1\<newline>A - x\<newline>Group 1\<newline>B - y''] =
     Inr [\<lparr>number = 1, entries = [\<lparr>word = lit ''A'', mnemonic = [], defn = lit ''x''\<rparr>]\<rparr>]
   \<and> distinct (map number
       [\<lparr>number = 1, entries = [\<lparr>word = lit ''A'', mnemonic = [], defn = lit ''x''\<rparr>]\<rparr>])\<close>
proof -
  have e: \<open>main_groups 4300 [lit ''Group 1\<newline>A - x\<newline>Group 1\<newline>B - y''] =
     Inr [\<lparr>number = 1, entries = [\<lparr>word = lit ''A'', mnemonic = [], defn = lit ''x''\<rparr>]\<rparr>]\<close>
    by (simp add: main_groups_def block_twice_1)
  from e unique_numbers [OF e] show ?thesis by (rule conjI)
qed

section \<open>The shape of retained entries\<close>

lemma set_py_strip: "set (py_strip s) \<subseteq> set s"
proof -
  have "set (py_strip s) \<subseteq> set (dropWhile py_isspace s)"
    unfolding py_strip_def py_rstrip_def py_lstrip_def
    using set_dropWhileD [of _ py_isspace "rev (dropWhile py_isspace s)"] by auto
  also have "\<dots> \<subseteq> set s" using set_dropWhileD by fastforce
  finally show ?thesis .
qed

lemma rev_dropWhile_rev_last:
  "rev (dropWhile P (rev s)) \<noteq> [] \<Longrightarrow> \<not> P (last (rev (dropWhile P (rev s))))"
  by (metis hd_dropWhile last_rev rev_is_Nil_conv)

lemma rev_dropWhile_rev_prefix: "\<exists>t. s = rev (dropWhile P (rev s)) @ t"
  by (metis rev_append rev_rev_ident takeWhile_dropWhile_id)

lemma rev_dropWhile_rev_hd:
  "rev (dropWhile P (rev s)) \<noteq> [] \<Longrightarrow> hd (rev (dropWhile P (rev s))) = hd s"
  by (metis hd_append2 rev_dropWhile_rev_prefix)

lemma py_strip_hd: "py_strip s \<noteq> [] \<Longrightarrow> \<not> py_isspace (hd (py_strip s))"
  unfolding py_strip_def py_rstrip_def py_lstrip_def
  by (metis hd_dropWhile rev_dropWhile_rev_hd rev.simps(1) dropWhile.simps(1))

lemma py_strip_last: "py_strip s \<noteq> [] \<Longrightarrow> \<not> py_isspace (last (py_strip s))"
  unfolding py_strip_def py_rstrip_def py_lstrip_def
  by (rule rev_dropWhile_rev_last)

lemma tidy_rstrip_dot:
  assumes "s = [] \<or> \<not> py_isspace (hd s)"
  shows "tidy (rstrip_dot s)"
proof (cases "rstrip_dot s = []")
  case True
  then show ?thesis by (simp add: tidy_def)
next
  case False
  then have r: "rev (dropWhile (\<lambda>c. c = 46) (rev s)) \<noteq> []" by (simp add: rstrip_dot_def)
  then have "s \<noteq> []" by auto
  with assms have "\<not> py_isspace (hd s)" by simp
  moreover have "hd (rstrip_dot s) = hd s"
    using rev_dropWhile_rev_hd [OF r] by (simp add: rstrip_dot_def)
  moreover have "last (rstrip_dot s) \<noteq> 46"
    using rev_dropWhile_rev_last [OF r] by (simp add: rstrip_dot_def)
  ultimately show ?thesis by (simp add: tidy_def)
qed

lemma tidy_rstrip_dot_strip: "tidy (rstrip_dot (py_strip s))"
  using py_strip_hd by (intro tidy_rstrip_dot) blast

lemma tidy_Nil: "tidy []"
  by (simp add: tidy_def)

lemma py_strip_id:
  assumes "s \<noteq> []" "\<not> py_isspace (hd s)" "\<not> py_isspace (last s)"
  shows "py_strip s = s"
proof -
  from assms(1,2) have l: "dropWhile py_isspace s = s" by (cases s) auto
  from assms(1,3) have "dropWhile py_isspace (rev s) = rev s"
    by (cases "rev s") (auto simp: last_rev [symmetric])
  with l show ?thesis by (simp add: py_strip_def py_lstrip_def py_rstrip_def)
qed

lemma takeWhile_run:
  "\<forall>c\<in>set xs. P c \<Longrightarrow> ys = [] \<or> \<not> P (hd ys) \<Longrightarrow> takeWhile P (xs @ ys) = xs"
  by (cases ys) auto

lemma dropWhile_run:
  "\<forall>c\<in>set xs. P c \<Longrightarrow> ys = [] \<or> \<not> P (hd ys) \<Longrightarrow> dropWhile P (xs @ ys) = ys"
  by (cases ys) auto

lemma alpha_not_space: "alpha_ci c \<Longrightarrow> \<not> py_isspace c"
  by (auto simp: alpha_ci_def py_isspace_def)

lemma space_not_alpha: "py_isspace c \<Longrightarrow> \<not> alpha_ci c"
  using alpha_not_space by blast

lemma tokens_one:
  assumes "l1 \<noteq> []" "\<forall>c\<in>set l1. alpha_ci c"
  shows "one_or_two_tokens l1"
proof -
  have a: "takeWhile alpha_ci l1 = l1" "dropWhile alpha_ci l1 = []" using assms(2) by simp_all
  show ?thesis unfolding one_or_two_tokens_def Let_def a using assms(1) by simp
qed

lemma tokens_two:
  assumes "l1 \<noteq> []" "\<forall>c\<in>set l1. alpha_ci c" "sp \<noteq> []" "\<forall>c\<in>set sp. py_isspace c"
    "l2 \<noteq> []" "\<forall>c\<in>set l2. alpha_ci c"
  shows "one_or_two_tokens (l1 @ sp @ l2)"
proof -
  have hsp: "\<not> alpha_ci (hd (sp @ l2))"
    using assms(3,4) by (cases sp) (auto simp: space_not_alpha)
  have hl2: "\<not> py_isspace (hd l2)"
    using assms(5,6) by (cases l2) (auto simp: alpha_not_space)
  have a: "takeWhile alpha_ci (l1 @ sp @ l2) = l1" "dropWhile alpha_ci (l1 @ sp @ l2) = sp @ l2"
    using assms(2) hsp by (blast intro: takeWhile_run dropWhile_run)+
  have b: "takeWhile py_isspace (sp @ l2) = sp" "dropWhile py_isspace (sp @ l2) = l2"
    using assms(4) hl2 by (blast intro: takeWhile_run dropWhile_run)+
  have c: "dropWhile alpha_ci l2 = []" using assms(6) by simp
  show ?thesis
    unfolding one_or_two_tokens_def Let_def a b c using assms(1,3,5) by simp
qed

lemma py_strip_letters:
  assumes "s \<noteq> []" "alpha_ci (hd s)" "alpha_ci (last s)"
  shows "py_strip s = s"
  using assms by (intro py_strip_id) (auto simp: alpha_not_space)

lemma match_word_tokens:
  assumes "match_word s = Some (g1, r)"
  shows "one_or_two_tokens g1 \<and> py_strip g1 = g1"
proof -
  define l1 where "l1 = takeWhile alpha_ci s"
  define r1 where "r1 = dropWhile alpha_ci s"
  define w where "w = takeWhile py_isspace r1"
  define r2 where "r2 = dropWhile py_isspace r1"
  define l2 where "l2 = takeWhile alpha_ci r2"
  have al1: "\<forall>c\<in>set l1. alpha_ci c" unfolding l1_def by (auto dest: set_takeWhileD)
  have al2: "\<forall>c\<in>set l2. alpha_ci c" unfolding l2_def by (auto dest: set_takeWhileD)
  have sw: "\<forall>c\<in>set w. py_isspace c" unfolding w_def by (auto dest: set_takeWhileD)
  from assms have ne: "l1 \<noteq> []"
    unfolding match_word_def Let_def l1_def by (auto split: if_splits)
  from assms have g: "g1 = (if w \<noteq> [] \<and> l2 \<noteq> [] then l1 @ w @ l2 else l1)"
    unfolding match_word_def Let_def l1_def r1_def w_def r2_def l2_def
    by (auto split: if_splits list.splits)
  show ?thesis
  proof (cases "w \<noteq> [] \<and> l2 \<noteq> []")
    case True
    then have t: "one_or_two_tokens (l1 @ w @ l2)"
      using ne al1 al2 sw by (intro tokens_two) auto
    have "hd (l1 @ w @ l2) = hd l1" "last (l1 @ w @ l2) = last l2" using ne True by simp_all
    then have "py_strip (l1 @ w @ l2) = l1 @ w @ l2"
      using ne True al1 al2 by (intro py_strip_letters) auto
    with t g True show ?thesis by simp
  next
    case False
    have "py_strip l1 = l1" using ne al1 by (intro py_strip_letters) auto
    moreover from False g have "g1 = l1" by auto
    ultimately show ?thesis using tokens_one [OF ne al1] by simp
  qed
qed

lemma match_word_mnemonic_tokens:
  "match_word_mnemonic s = Some (g1, g2) \<Longrightarrow> one_or_two_tokens (py_strip g1)"
  unfolding match_word_mnemonic_def
  using match_word_tokens by (fastforce split: option.splits)

lemma match_word_def_tokens:
  "match_word_def s = Some (g1, g2) \<Longrightarrow> one_or_two_tokens (py_strip g1)"
  unfolding match_word_def_def Let_def
  using match_word_tokens by (fastforce split: option.splits if_splits)

lemma match_word_wordy: "match_word s = Some (g1, r) \<Longrightarrow> wordy g1"
  unfolding match_word_def wordy_def Let_def
  by (auto split: if_splits list.splits dest: set_takeWhileD)

lemma match_word_mnemonic_wordy: "match_word_mnemonic s = Some (g1, g2) \<Longrightarrow> wordy (py_strip g1)"
  unfolding match_word_mnemonic_def
  using match_word_wordy set_py_strip
  by (fastforce simp: wordy_def split: option.splits)

lemma match_word_def_wordy: "match_word_def s = Some (g1, g2) \<Longrightarrow> wordy (py_strip g1)"
  unfolding match_word_def_def Let_def
  using match_word_wordy set_py_strip
  by (fastforce simp: wordy_def split: option.splits if_splits)

lemma current_entry_good:
  "good_state st \<Longrightarrow> current_word st = Some w \<Longrightarrow> good_entry (current_entry w st)"
  by (auto simp: good_state_def good_entry_def current_entry_def or_empty_def tidy_Nil
      split: option.splits)

lemma save_if_complete_good:
  "good_state st \<Longrightarrow> \<forall>e\<in>set (save_if_complete st). good_entry e"
  using current_entry_good
  by (auto simp: save_if_complete_def good_state_def split: option.splits)

lemma process_line_good: "good_state st \<Longrightarrow> good_state (process_line raw st)"
proof -
  assume st: "good_state st"
  have saved: "\<forall>e\<in>set (save_if_complete st). good_entry e"
    using st by (rule save_if_complete_good)
  have app: "\<And>w. current_word st = Some w \<Longrightarrow> \<forall>e\<in>set (appended st @ [current_entry w st]). good_entry e"
    using st current_entry_good by (auto simp: good_state_def)
  show ?thesis
    unfolding process_line_def Let_def
    using st saved app
    by (auto simp: good_state_def tidy_rstrip_dot_strip
        dest: match_word_mnemonic_wordy match_word_def_wordy
          match_word_mnemonic_tokens match_word_def_tokens
        split: option.splits)
qed

lemma fold_process_line_good: "good_state st \<Longrightarrow> good_state (fold process_line ls st)"
  by (induction ls arbitrary: st) (auto simp: process_line_good)

lemma parse_entries_good: "\<forall>e\<in>set (parse_entries content). good_entry e"
  unfolding parse_entries_def
  by (intro save_if_complete_good fold_process_line_good)
     (simp add: good_state_def initial_state_def)

lemma parse_parts_good:
  "parse_parts lim acc parts = Inr gs \<Longrightarrow> \<forall>g\<in>set acc. \<forall>e\<in>set (entries g). good_entry e \<Longrightarrow>
     \<forall>g\<in>set gs. \<forall>e\<in>set (entries g). good_entry e"
proof (induction lim acc parts rule: parse_parts.induct)
  case (1 lim groups num content rest)
  then show ?case
    using parse_entries_good [of content]
    by (auto simp: Let_def split: sum.splits if_splits)
qed auto

lemma parse_response_good:
  "parse_response lim text = Inr gs \<Longrightarrow> \<forall>g\<in>set gs. \<forall>e\<in>set (entries g). good_entry e"
  unfolding parse_response_def using parse_parts_good by fastforce

lemma main_groups_good:
  assumes "main_groups lim bs = Inr corpus"
  shows "\<forall>g\<in>set corpus. \<forall>e\<in>set (entries g). good_entry e"
proof (intro ballI)
  fix g e assume g: "g \<in> set corpus" and e: "e \<in> set (entries g)"
  from main_groups_parsed [OF assms] obtain gss where gss: "length gss = length bs"
    "\<forall>k<length bs. parse_response lim (bs ! k) = Inr (gss ! k)" "corpus = fresh {} (concat gss)"
    by blast
  from g gss(3) fresh_subset have "g \<in> set (concat gss)" by blast
  then obtain xs where "xs \<in> set gss" "g \<in> set xs" by auto
  then obtain k where k: "k < length gss" "g \<in> set (gss ! k)"
    by (metis in_set_conv_nth)
  with gss have "parse_response lim (bs ! k) = Inr (gss ! k)" by simp
  from parse_response_good [OF this] k e show "good_entry e" by blast
qed

lemma title_char_safe:
  "alpha_ci c \<or> py_isspace c \<Longrightarrow>
     (\<forall>x\<in>set (title_full c). x \<noteq> 38 \<and> x \<noteq> 60 \<and> x \<noteq> 62) \<and>
     (\<forall>x\<in>set (lower_full c). x \<noteq> 38 \<and> x \<noteq> 60 \<and> x \<noteq> 62)"
  unfolding alpha_ci_def py_isspace_def title_full_def lower_full_def
  by auto

lemma title_from_safe:
  "wordy w \<Longrightarrow> \<forall>x\<in>set (title_from b w). x \<noteq> 38 \<and> x \<noteq> 60 \<and> x \<noteq> 62"
proof (induction w arbitrary: b)
  case Nil
  then show ?case by simp
next
  case (Cons c w)
  then have c: "alpha_ci c \<or> py_isspace c" and w: "wordy w" by (auto simp: wordy_def)
  from title_char_safe [OF c] Cons.IH [OF w] show ?case by auto
qed

text \<open>
  Claim C2, as the code has it. Every way of setting a text ends in
  \<^verbatim>\<open>.strip().rstrip('.')\<close>, the white space first and the full stops last. So a text of
  a retained entry has its trailing full stops stripped, it ends in none, and it starts
  with no white space. Of white space at its end nothing is said.
\<close>

theorem tidy_texts:
  "main_groups lim bs = Inr corpus \<Longrightarrow>
     \<forall>g\<in>set corpus. \<forall>e\<in>set (entries g). tidy (mnemonic e) \<and> tidy (defn e)"
  using main_groups_good by (fastforce simp: good_entry_def)

text \<open>A block that sets the mnemonic from the word line and the definition from a line of its own.\<close>

lemma block_abate:
  \<open>main_groups 4300 [lit ''Group 2\<newline>Abate - Mnemonic: a bait..\<newline>Definition:  to lessen.''] =
     Inr [\<lparr>number = 2, entries = [\<lparr>word = lit ''Abate'', mnemonic = lit ''a bait'',
                                     defn = lit ''to lessen''\<rparr>]\<rparr>]\<close>
  by (simp add: main_groups_def run_defs cong: let_weak_cong)

theorem tidy_texts_witness:
  \<open>main_groups 4300 [lit ''Group 2\<newline>Abate - Mnemonic: a bait..\<newline>Definition:  to lessen.''] =
     Inr [\<lparr>number = 2, entries = [\<lparr>word = lit ''Abate'', mnemonic = lit ''a bait'',
                                     defn = lit ''to lessen''\<rparr>]\<rparr>]
   \<and> tidy (lit ''a bait'') \<and> tidy (lit ''to lessen'')\<close>
  using block_abate tidy_texts [OF block_abate] by simp

text \<open>
  The claim as worded fails: the mnemonic \<^verbatim>\<open>abc .\<close> loses its full stop and keeps the
  space before it, so the retained mnemonic ends in white space.
\<close>

theorem trailing_space_kept:
  \<open>main_groups 4300 [lit ''Group 1\<newline>Foo - Mnemonic: abc .''] =
     Inr [\<lparr>number = 1, entries = [\<lparr>word = lit ''Foo'', mnemonic = lit ''abc '', defn = []\<rparr>]\<rparr>]
   \<and> py_isspace (last (lit ''abc ''))\<close>
  by (simp add: main_groups_def run_defs cong: let_weak_cong)

text \<open>
  Claim C10, as the code has it. Both word patterns are compiled with \<^verbatim>\<open>re.IGNORECASE\<close>,
  under which \<^verbatim>\<open>[a-zA-Z]\<close> also accepts the four letters outside ASCII whose case folding
  is an ASCII letter (U+0130, U+0131, U+017F, U+212A). So the word of a retained entry is
  one or two tokens of letters of that class, the second parted from the first by white
  space, as the word patterns enforce; it is made of such letters and of white space
  only, and its title-cased form, which is what the table cell gets, has none of
  \<^verbatim>\<open>&\<close>, \<^verbatim>\<open><\<close>, \<^verbatim>\<open>>\<close>.
\<close>

theorem word_characters:
  "main_groups lim bs = Inr corpus \<Longrightarrow>
     \<forall>g\<in>set corpus. \<forall>e\<in>set (entries g).
        one_or_two_tokens (word e) \<and>
        (\<forall>c\<in>set (word e). alpha_ci c \<or> py_isspace c) \<and>
        (\<forall>c\<in>set (py_title (word e)). c \<noteq> 38 \<and> c \<noteq> 60 \<and> c \<noteq> 62)"
proof (intro ballI)
  fix g e assume a: "main_groups lim bs = Inr corpus" "g \<in> set corpus" "e \<in> set (entries g)"
  then have "good_entry e" using main_groups_good by blast
  then have w: "wordy (word e)" and t: "one_or_two_tokens (word e)"
    by (simp_all add: good_entry_def)
  from w have "(\<forall>c\<in>set (word e). alpha_ci c \<or> py_isspace c) \<and>
        (\<forall>c\<in>set (py_title (word e)). c \<noteq> 38 \<and> c \<noteq> 60 \<and> c \<noteq> 62)"
    using title_from_safe [of "word e" False] by (simp add: wordy_def py_title_def)
  with t show "one_or_two_tokens (word e) \<and>
        (\<forall>c\<in>set (word e). alpha_ci c \<or> py_isspace c) \<and>
        (\<forall>c\<in>set (py_title (word e)). c \<noteq> 38 \<and> c \<noteq> 60 \<and> c \<noteq> 62)"
    by blast
qed

text \<open>A block whose word has two tokens.\<close>

lemma block_ad_hoc:
  \<open>main_groups 4300 [lit ''Group 1\<newline>ad hoc - for this''] =
     Inr [\<lparr>number = 1, entries = [\<lparr>word = lit ''ad hoc'', mnemonic = [],
                                     defn = lit ''for this''\<rparr>]\<rparr>]\<close>
  by (simp add: main_groups_def run_defs cong: let_weak_cong)

theorem word_characters_witness:
  \<open>main_groups 4300 [lit ''Group 1\<newline>ad hoc - for this''] =
     Inr [\<lparr>number = 1, entries = [\<lparr>word = lit ''ad hoc'', mnemonic = [],
                                     defn = lit ''for this''\<rparr>]\<rparr>]
   \<and> one_or_two_tokens (lit ''ad hoc'')
   \<and> set (lit ''ad hoc'') \<subseteq> {c. alpha_ci c \<or> py_isspace c}
   \<and> set (py_title (lit ''ad hoc'')) \<inter> {38, 60, 62} = {}\<close>
  using block_ad_hoc word_characters [OF block_ad_hoc] by auto

text \<open>
  The claim as worded fails: the Kelvin sign U+212A is accepted as a word, and it is
  not an ASCII character.
\<close>

theorem kelvin_word:
  \<open>main_groups 4300 [lit ''Group 1\<newline>'' @ [8490] @ lit '' - x''] =
     Inr [\<lparr>number = 1, entries = [\<lparr>word = [8490], mnemonic = [], defn = lit ''x''\<rparr>]\<rparr>]
   \<and> \<not> (8490::nat) < 128\<close>
  by (simp add: main_groups_def run_defs cong: let_weak_cong)

section \<open>The examples of the specification\<close>

text \<open>
  Claim C5. The line of the specification inside a section \<^verbatim>\<open>Group 3\<close>: the tail
  \<^verbatim>\<open>Definition: ...\<close> is split off and both texts lose their trailing full stop. The
  result does not depend on the digit limit of the interpreter.
\<close>

theorem ebullient_example:
  \<open>parse_response lim (lit ''Group 3\<newline>Ebullient - Mnemonic: Sounds like "bubble-ient," bubbling over. Definition: cheerful and full of energy.'')
   = Inr [\<lparr>number = 3, entries = [\<lparr>word = lit ''Ebullient'',
        mnemonic = lit ''Sounds like "bubble-ient," bubbling over'',
        defn = lit ''cheerful and full of energy''\<rparr>]\<rparr>]\<close>
  by (simp add: run_defs cong: let_weak_cong)

text \<open>
  Claim C1. The branch for a word-definition line met while an entry is in progress
  appends that entry without the test the three other appends make. A word line whose
  mnemonic is a lone full stop leaves the empty mnemonic; the next word-definition line
  then appends the entry \<^verbatim>\<open>Foo\<close> with both texts empty, and the corpus retains it.
\<close>

theorem empty_entry_retained:
  \<open>main_groups 4300 [lit ''Group 1\<newline>Foo - Mnemonic: .\<newline>Bar - baz''] =
     Inr [\<lparr>number = 1, entries = [\<lparr>word = lit ''Foo'', mnemonic = [], defn = []\<rparr>,
                                   \<lparr>word = lit ''Bar'', mnemonic = [], defn = lit ''baz''\<rparr>]\<rparr>]\<close>
  by (simp add: main_groups_def run_defs cong: let_weak_cong)

section \<open>Returning normally\<close>

lemma parse_parts_returns:
  "(\<exists>gs. parse_parts lim acc parts = Inr gs) \<longleftrightarrow>
     (\<forall>ds\<in>set (group_numbers parts). length ds \<le> 640 \<or> lim = 0 \<or> length ds \<le> lim)"
proof (induction lim acc parts rule: parse_parts.induct)
  case (1 lim groups num content rest)
  show ?case
  proof (cases "py_int lim num")
    case (Inl e)
    then show ?thesis by (auto simp: py_int_def split: if_splits)
  next
    case (Inr v)
    then have ok: "length num \<le> 640 \<or> lim = 0 \<or> length num \<le> lim"
      by (auto simp: py_int_def split: if_splits)
    show ?thesis
      using "1.IH"(1) [OF Inr refl] "1.IH"(2) [OF Inr refl] Inr ok
      by (auto simp: Let_def)
  qed
qed auto

lemma parse_parts_none: "group_numbers parts = [] \<Longrightarrow> parse_parts lim acc parts = Inr acc"
  by (induction lim acc parts rule: parse_parts.induct) auto

lemma re_split_no_match:
  "\<forall>k<length s. match_group (drop k s) = None \<Longrightarrow> re_split cur s = [cur @ s]"
proof (induction s arbitrary: cur)
  case Nil
  then show ?case by simp
next
  case (Cons c cs)
  from Cons.prems have here: "match_group (c # cs) = None" by force
  have "\<forall>k<length cs. match_group (drop k cs) = None"
  proof (intro allI impI)
    fix k assume "k < length cs"
    then have "Suc k < length (c # cs)" by simp
    with Cons.prems have "match_group (drop (Suc k) (c # cs)) = None" by blast
    then show "match_group (drop k cs) = None" by simp
  qed
  from Cons.IH [OF this] here show ?case by simp
qed

lemma re_sub_bol_no_newline: "10 \<notin> set s \<Longrightarrow> re_sub_bol m False s = s"
  by (induction s) auto

lemma patterns_fail_at_G: "m \<in> set patterns_to_remove \<Longrightarrow> m (71 # cs) = None"
  by (auto simp: patterns_to_remove_def opener_def here_is_def upto_dot_def lit_def
      ci_char_def sre_lower_def)

lemma fold_sub_id:
  assumes "10 \<notin> set cs" "set ms \<subseteq> set patterns_to_remove"
  shows "fold (\<lambda>pattern t. re_sub_bol pattern True t) ms (71 # cs) = 71 # cs"
  using assms(2)
proof (induction ms)
  case Nil
  then show ?case by simp
next
  case (Cons m ms)
  then have "m (71 # cs) = None" using patterns_fail_at_G by auto
  then have "re_sub_bol m True (71 # cs) = 71 # cs"
    using assms(1) by (simp add: re_sub_bol_no_newline)
  with Cons show ?case by simp
qed

lemma clean_group_digits:
  assumes "0 < n"
  shows "clean_response_text (lit ''Group '' @ replicate n 49) = lit ''Group '' @ replicate n 49"
proof -
  let ?cs = "[114, 111, 117, 112, 32] @ replicate n (49::nat)"
  have t: "lit ''Group '' @ replicate n 49 = 71 # ?cs" by (simp add: lit_def)
  have "10 \<notin> set ?cs" by auto
  then have f: "fold (\<lambda>pattern t. re_sub_bol pattern True t) patterns_to_remove (71 # ?cs) = 71 # ?cs"
    by (intro fold_sub_id) auto
  have "last (71 # ?cs) = 49" using assms by simp
  then have "py_strip (71 # ?cs) = 71 # ?cs"
    by (intro py_strip_id) (auto simp: py_isspace_def)
  with f t show ?thesis by (simp add: clean_response_text_def)
qed

lemma py_isdecimal_1: "py_isdecimal 49"
  by (simp add: py_isdecimal_def py_decimal_def digit_zeros_def)

lemma match_group_digits:
  assumes "ds \<noteq> []" "\<forall>c\<in>set ds. py_isdecimal c" "\<not> py_isspace (hd ds)"
  shows "match_group (lit ''Group '' @ ds) = Some (ds, [])"
proof -
  from assms(1) obtain d ds' where ds: "ds = d # ds'" by (cases ds) auto
  have p: "strip_prefix (lit ''Group'') (lit ''Group '' @ ds) = Some (32 # ds)"
    by (simp add: lit_def)
  have sp: "py_isspace 32" by (simp add: py_isspace_def)
  have w: "takeWhile py_isspace ds = []" "dropWhile py_isspace ds = ds"
    using assms(3) by (simp_all add: ds)
  have d: "takeWhile py_isdecimal ds = ds" "dropWhile py_isdecimal ds = []"
    using assms(2) by simp_all
  show ?thesis
    unfolding match_group_def p using assms(1) by (simp add: sp w d Let_def)
qed

lemma re_split_group_digits:
  assumes "0 < n"
  shows "re_split [] (lit ''Group '' @ replicate n 49) = [[], replicate n 49, []]"
proof -
  have "\<not> py_isspace (hd (replicate n 49))"
    using assms by (cases n) (auto simp: py_isspace_def)
  then have m: "match_group (lit ''Group '' @ replicate n 49) = Some (replicate n 49, [])"
    using assms py_isdecimal_1 by (intro match_group_digits) auto
  have "lit ''Group '' @ replicate n 49 = 71 # ([114, 111, 117, 112, 32] @ replicate n 49)"
    by (simp add: lit_def)
  with m show ?thesis by simp
qed

lemma long_number_raises:
  assumes "640 < n" "0 < lim" "lim < n"
  shows "parse_response lim (lit ''Group '' @ replicate n 49) = Inl ValueError"
proof -
  from assms have n: "0 < n" by simp
  show ?thesis
    using assms
    by (simp add: parse_response_def clean_group_digits [OF n] re_split_group_digits [OF n]
        py_int_def)
qed

lemma no_marker_clean: "clean_response_text (lit ''no marker'') = lit ''no marker''"
  by (simp add: run_defs cong: let_weak_cong)

lemma no_marker_nowhere:
  "\<forall>k<length (lit ''no marker''). match_group (drop k (lit ''no marker'')) = None"
  by (simp add: lit_def match_group_def All_less_Suc)

lemma note_line:
  "match_word_mnemonic (py_strip (lit ''just a note'')) = None \<and>
   match_word_def (py_strip (lit ''just a note'')) = None \<and>
   \<not> lower_startswith (lit ''mnemonic:'') (py_strip (lit ''just a note'')) \<and>
   \<not> lower_startswith (lit ''definition:'') (py_strip (lit ''just a note''))"
  by (simp add: run_defs cong: let_weak_cong)

lemma block_4_numbers:
  \<open>group_numbers (drop 1 (re_split [] (clean_response_text (lit ''Group 4\<newline>A - x'')))) = [lit ''4'']\<close>
  by (simp add: run_defs cong: let_weak_cong)

text \<open>
  Claim C9, as the code has it. The only call of \<^verbatim>\<open>parse_response\<close> that can raise is
  \<^verbatim>\<open>int\<close> on the digits of a marker: the interpreter refuses a number of more digits
  than its limit (4300 unless set otherwise; 0 switches the limit off). So a block is
  parsed to a list of groups exactly when no marker of the cleaned text has more digits
  than the limit allows; a cleaned text in which the marker matches nowhere gives no
  group; and a line that matches no entry pattern leaves the state of the line loop as
  it is.
\<close>

theorem returns_unless_long_number:
  "((\<exists>gs. parse_response lim text = Inr gs) \<longleftrightarrow>
      (\<forall>ds\<in>set (group_numbers (drop 1 (re_split [] (clean_response_text text)))).
          length ds \<le> 640 \<or> lim = 0 \<or> length ds \<le> lim))
   \<and> ((\<forall>k<length (clean_response_text text).
          match_group (drop k (clean_response_text text)) = None)
        \<longrightarrow> parse_response lim text = Inr [])
   \<and> (match_word_mnemonic (py_strip raw) = None \<and> match_word_def (py_strip raw) = None \<and>
        \<not> lower_startswith (lit ''mnemonic:'') (py_strip raw) \<and>
        \<not> lower_startswith (lit ''definition:'') (py_strip raw)
        \<longrightarrow> process_line raw st = st)"
proof (intro conjI impI)
  show "(\<exists>gs. parse_response lim text = Inr gs) \<longleftrightarrow>
      (\<forall>ds\<in>set (group_numbers (drop 1 (re_split [] (clean_response_text text)))).
          length ds \<le> 640 \<or> lim = 0 \<or> length ds \<le> lim)"
    unfolding parse_response_def by (rule parse_parts_returns)
next
  assume "\<forall>k<length (clean_response_text text).
          match_group (drop k (clean_response_text text)) = None"
  then have "re_split [] (clean_response_text text) = [[] @ clean_response_text text]"
    by (rule re_split_no_match)
  then show "parse_response lim text = Inr []" by (simp add: parse_response_def)
next
  assume "match_word_mnemonic (py_strip raw) = None \<and> match_word_def (py_strip raw) = None \<and>
        \<not> lower_startswith (lit ''mnemonic:'') (py_strip raw) \<and>
        \<not> lower_startswith (lit ''definition:'') (py_strip raw)"
  then show "process_line raw st = st" by (simp add: process_line_def Let_def)
qed

theorem returns_unless_long_number_witness:
  \<open>group_numbers (drop 1 (re_split [] (clean_response_text (lit ''Group 4\<newline>A - x'')))) = [lit ''4'']
   \<and> length (lit ''4'') \<le> 640
   \<and> (\<exists>gs. parse_response 4300 (lit ''Group 4\<newline>A - x'') = Inr gs)
   \<and> parse_response 4300 (lit ''no marker'') = Inr []
   \<and> process_line (lit ''just a note'') initial_state = initial_state\<close>
proof -
  note t1 = returns_unless_long_number
    [of 4300 \<open>lit ''Group 4\<newline>A - x''\<close> \<open>lit ''just a note''\<close> initial_state]
  note t2 = returns_unless_long_number
    [of 4300 \<open>lit ''no marker''\<close> \<open>lit ''just a note''\<close> initial_state]
  have a: "length (lit ''4'') \<le> 640" by (simp add: lit_def)
  from t1 block_4_numbers a
  have e: \<open>\<exists>gs. parse_response 4300 (lit ''Group 4\<newline>A - x'') = Inr gs\<close> by simp
  from t2 no_marker_nowhere
  have n: "parse_response 4300 (lit ''no marker'') = Inr []" by (simp add: no_marker_clean)
  from t2 note_line
  have l: "process_line (lit ''just a note'') initial_state = initial_state" by blast
  from block_4_numbers a e n l show ?thesis by blast
qed

text \<open>
  The claim as worded fails: on a marker of 4301 digits, under the default limit,
  \<^verbatim>\<open>int\<close> raises \<^verbatim>\<open>ValueError\<close> and nothing catches it.
\<close>

theorem long_group_number_raises:
  "parse_response 4300 (lit ''Group '' @ replicate 4301 49) = Inl ValueError"
  by (rule long_number_raises) simp_all

section \<open>The rendered document\<close>

lemma py_replace_append: "py_replace old new (a @ b) = py_replace old new a @ py_replace old new b"
  by (simp add: py_replace_def)

lemma py_replace_Cons:
  "py_replace old new (c # s) = (if c = old then new else [c]) @ py_replace old new s"
  by (simp add: py_replace_def)

lemma py_replace_Nil: "py_replace old new [] = []"
  by (simp add: py_replace_def)

lemma html_escape_Cons: "html_escape (c # s) = escape_char c @ html_escape s"
  by (simp add: html_escape_def escape_char_def py_replace_Cons py_replace_append py_replace_Nil
      lit_def)

lemma html_escape_spec: "html_escape s = escape_spec s"
  by (induction s) (simp_all add: html_escape_Cons escape_spec_def, simp add: html_escape_def py_replace_Nil)

lemma fold_appends: "(\<And>x h. f x h = h @ g x) \<Longrightarrow> fold f xs h = h @ concat (map g xs)"
  by (induction xs arbitrary: h) simp_all

lemma concat_map_filter:
  "concat (map (\<lambda>x. if P x then g x else []) xs) = concat (map g (filter P xs))"
  by (induction xs) simp_all

lemma render_row_cells:
  "render_row e = row_1 @ py_title (word e) @ row_2 @ escape_spec (mnemonic e) @ row_3 @
     escape_spec (defn e) @ row_4"
  by (simp add: render_row_def Let_def html_escape_spec)

lemma render_group_table: "render_group g html = html @ group_table g"
proof -
  have "fold (\<lambda>entry h. h @ render_row entry) (entries g) h0 =
        h0 @ concat (map render_row (entries g))" for h0
    by (rule fold_appends) simp
  then show ?thesis by (simp add: render_group_def group_table_def Let_def)
qed

lemma make_lookup_dom: "dom (make_lookup xs) = number ` set xs"
proof -
  have "dom (fold (\<lambda>g m. m(number g \<mapsto> g)) xs m) = dom m \<union> number ` set xs" for m
    by (induction xs arbitrary: m) auto
  then show ?thesis by (simp add: make_lookup_def)
qed

lemma lookup_defined:
  "make_lookup (sort_key number gs) n \<noteq> None \<longleftrightarrow> n \<in> number ` set gs"
proof -
  have "make_lookup (sort_key number gs) n \<noteq> None \<longleftrightarrow> n \<in> dom (make_lookup (sort_key number gs))"
    by (simp add: dom_def)
  then show ?thesis by (simp add: make_lookup_dom)
qed

lemma lookup_defined_ex:
  "(\<exists>y. make_lookup (sort_key number gs) n = Some y) \<longleftrightarrow> n \<in> number ` set gs"
  using lookup_defined [of gs n] by simp

lemma sum_list_insort_key:
  "sum_list (map f (insort_key k x xs)) = (f x :: nat) + sum_list (map f xs)"
  by (induction xs) auto

lemma sum_list_sort_key: "sum_list (map f (sort_key k xs)) = (sum_list (map f xs) :: nat)"
  by (induction xs) (simp_all add: sum_list_insort_key)

lemma toc_episode_block:
  "toc_episode (make_lookup (sort_key number gs)) ep html = html @ toc_block gs ep"
proof -
  let ?look = "make_lookup (sort_key number gs)"
  have "fold (\<lambda>gnum h. if ?look gnum \<noteq> None
                     then h @ toc_link_1 @ py_str gnum @ toc_link_2 @ py_str gnum @ toc_link_3
                     else h) ns h0 =
        h0 @ concat (map (\<lambda>n. if ?look n \<noteq> None then toc_link n else []) ns)" for ns h0
    by (rule fold_appends) (simp add: toc_link_def)
  then show ?thesis
    by (simp add: toc_episode_def toc_block_def toc_numbers_def Let_def concat_map_filter
        lookup_defined_ex)
qed

lemma map_filter_the:
  "List.map_filter f xs = map (\<lambda>x. the (f x)) (filter (\<lambda>x. f x \<noteq> None) xs)"
  by (induction xs) (auto simp: List.map_filter_def)

lemma body_episode_section:
  "body_episode (make_lookup (sort_key number gs)) ep html = html @ body_section gs ep"
proof -
  let ?look = "make_lookup (sort_key number gs)"
  have eg: "episode_groups ?look ep = map (\<lambda>n. the (?look n)) (toc_numbers gs ep)"
    by (simp add: episode_groups_def map_filter_the toc_numbers_def lookup_defined_ex)
  have f: "fold render_group egs h0 = h0 @ concat (map group_table egs)" for egs h0
    by (rule fold_appends) (rule render_group_table)
  show ?thesis
    by (simp add: body_episode_def body_section_def Let_def eg f comp_def)
qed

lemma generate_html_document:
  "generate_html gs =
     html_head_1 @ py_str (int (sum_list (map (\<lambda>g. length (entries g)) gs))) @ html_head_2 @
     py_str (int (length gs)) @ html_head_3 @
     concat (map (toc_block gs) episodes) @ nav_close @
     concat (map (body_section gs) episodes) @ html_tail"
proof -
  let ?look = "make_lookup (sort_key number gs)"
  have t: "fold (toc_episode ?look) eps h0 = h0 @ concat (map (toc_block gs) eps)" for eps h0
    by (rule fold_appends) (rule toc_episode_block)
  have b: "fold (body_episode ?look) eps h0 = h0 @ concat (map (body_section gs) eps)" for eps h0
    by (rule fold_appends) (rule body_episode_section)
  have s: "sum_list (map (\<lambda>g. length (entries g)) (sort_key number gs)) =
        sum_list (map (\<lambda>g. length (entries g)) gs)"
    by (rule sum_list_sort_key)
  show ?thesis
    unfolding generate_html_def Let_def t b s by simp
qed


lemma block_trend:
  \<open>main_groups 4300 [lit ''Group 1\<newline>Trend - 5 < 10 & rising''] =
     Inr [\<lparr>number = 1, entries = [\<lparr>word = lit ''Trend'', mnemonic = [],
                                     defn = lit ''5 < 10 & rising''\<rparr>]\<rparr>]\<close>
  by (simp add: main_groups_def run_defs cong: let_weak_cong)

lemma blocks_1237:
  \<open>main_groups 4300 [lit ''Group 7\<newline>G - g\<newline>Group 2\<newline>B - b'',
                     lit ''Group 1\<newline>A - a\<newline>Group 3\<newline>C - c''] =
     Inr [\<lparr>number = 7, entries = [\<lparr>word = lit ''G'', mnemonic = [], defn = lit ''g''\<rparr>]\<rparr>,
          \<lparr>number = 2, entries = [\<lparr>word = lit ''B'', mnemonic = [], defn = lit ''b''\<rparr>]\<rparr>,
          \<lparr>number = 1, entries = [\<lparr>word = lit ''A'', mnemonic = [], defn = lit ''a''\<rparr>]\<rparr>,
          \<lparr>number = 3, entries = [\<lparr>word = lit ''C'', mnemonic = [], defn = lit ''c''\<rparr>]\<rparr>]\<close>
  by (simp add: main_groups_def run_defs cong: let_weak_cong)

lemma toc_numbers_1237:
  "number ` set corpus = {1, 2, 3, 7} \<Longrightarrow>
     map (toc_numbers corpus) episodes = [[1, 2, 3], [7], [], [], [], [], []]"
  by (simp add: toc_numbers_def episodes_def upto.simps)

lemma toc_link_7: \<open>toc_link 7 = lit ''            <li><a href="#group7">Group 7</a></li>\<newline>''\<close>
  by (simp add: toc_link_def toc_link_1_def toc_link_2_def toc_link_3_def py_str_def
      nat_digits.simps lit_def)

lemma fold_update_Some:
  "fold (\<lambda>g m. m(number g \<mapsto> g)) xs m n = Some g \<Longrightarrow>
     (g \<in> set xs \<and> number g = n) \<or> m n = Some g"
  by (induction xs arbitrary: m) (fastforce split: if_splits)+

lemma make_lookup_member:
  "make_lookup (sort_key number gs) n = Some g \<Longrightarrow> g \<in> set gs \<and> number g = n"
  using fold_update_Some [of "sort_key number gs" Map.empty n g]
  by (simp add: make_lookup_def)

lemma toc_numbers_resolve:
  assumes "n \<in> set (toc_numbers gs ep)"
  shows "\<exists>g\<in>set gs. number g = n \<and> make_lookup (sort_key number gs) n = Some g"
proof -
  from assms have "n \<in> number ` set gs" by (simp add: toc_numbers_def)
  then have "\<exists>g. make_lookup (sort_key number gs) n = Some g" by (simp add: lookup_defined_ex)
  then obtain g where g: "make_lookup (sort_key number gs) n = Some g" ..
  from make_lookup_member [OF g] g show ?thesis by auto
qed

text \<open>
  Claim C7. The three replacements, made one after the other with \<^verbatim>\<open>&\<close> first, replace
  each character of a text by itself or by its entity, so no entity is escaped twice.
  For the corpus that the extractor hands to the renderer, the document holds the
  sections of the episodes, a section the tables of the groups of the corpus whose
  numbers it lists, and a table the rows of the entries of its group, in order; a row
  holds the title-cased word as it is, and the mnemonic and the definition escaped
  that way.
\<close>

theorem cells_escaped:
  "html_escape s = escape_spec s \<and>
   (main_groups lim bs = Inr corpus \<longrightarrow>
      generate_html corpus =
        html_head_1 @ py_str (int (sum_list (map (\<lambda>g. length (entries g)) corpus))) @
        html_head_2 @ py_str (int (length corpus)) @ html_head_3 @
        concat (map (toc_block corpus) episodes) @ nav_close @
        concat (map (body_section corpus) episodes) @ html_tail \<and>
      (\<forall>ep\<in>set episodes. \<forall>n\<in>set (toc_numbers corpus ep).
          \<exists>g\<in>set corpus. number g = n \<and> make_lookup (sort_key number corpus) n = Some g) \<and>
      (\<forall>g\<in>set corpus.
          group_table g =
            group_open_1 @ py_str (number g) @ group_open_2 @ py_str (number g) @
            group_open_3 @ concat (map render_row (entries g)) @ group_close \<and>
          (\<forall>e\<in>set (entries g).
             render_row e =
               row_1 @ py_title (word e) @ row_2 @ escape_spec (mnemonic e) @ row_3 @
               escape_spec (defn e) @ row_4)))"
  using toc_numbers_resolve
  by (simp add: html_escape_spec render_row_cells group_table_def generate_html_document)

text \<open>
  The definition \<^verbatim>\<open>5 < 10 & rising\<close> of the specification, from the block to the row.
\<close>

theorem cells_escaped_witness:
  \<open>main_groups 4300 [lit ''Group 1\<newline>Trend - 5 < 10 & rising''] =
     Inr [\<lparr>number = 1, entries = [\<lparr>word = lit ''Trend'', mnemonic = [],
                                     defn = lit ''5 < 10 & rising''\<rparr>]\<rparr>]
   \<and> html_escape (lit ''5 < 10 & rising'') = lit ''5 &lt; 10 &amp; rising''
   \<and> render_row \<lparr>word = lit ''Trend'', mnemonic = [], defn = lit ''5 < 10 & rising''\<rparr> =
       lit ''            <tr><td>Trend</td><td></td><td>5 &lt; 10 &amp; rising</td></tr>\<newline>''\<close>
proof -
  note t = cells_escaped [of \<open>lit ''5 < 10 & rising''\<close> 4300
      \<open>[lit ''Group 1\<newline>Trend - 5 < 10 & rising'']\<close>
      \<open>[\<lparr>number = 1, entries = [\<lparr>word = lit ''Trend'', mnemonic = [],
                                     defn = lit ''5 < 10 & rising''\<rparr>]\<rparr>]\<close>]
  have e: \<open>escape_spec (lit ''5 < 10 & rising'') = lit ''5 &lt; 10 &amp; rising''\<close>
    by (simp add: escape_spec_def escape_char_def lit_def)
  have n: "escape_spec [] = []" by (simp add: escape_spec_def)
  have w: \<open>py_title (lit ''Trend'') = lit ''Trend''\<close>
    by (simp add: py_title_def title_full_def lower_full_def alpha_ci_def lit_def)
  from t have h: \<open>html_escape (lit ''5 < 10 & rising'') = lit ''5 &lt; 10 &amp; rising''\<close>
    by (simp add: e)
  from t block_trend
  have rr: \<open>render_row \<lparr>word = lit ''Trend'', mnemonic = [], defn = lit ''5 < 10 & rising''\<rparr> =
      row_1 @ py_title (lit ''Trend'') @ row_2 @ escape_spec [] @ row_3 @
      escape_spec (lit ''5 < 10 & rising'') @ row_4\<close>
    by simp
  have r0: \<open>row_1 @ py_title (lit ''Trend'') @ row_2 @ escape_spec [] @ row_3 @
      escape_spec (lit ''5 < 10 & rising'') @ row_4 =
      lit ''            <tr><td>Trend</td><td></td><td>5 &lt; 10 &amp; rising</td></tr>\<newline>''\<close>
    unfolding e n w by (simp add: row_1_def row_2_def row_3_def row_4_def lit_def)
  from rr r0 have r: \<open>render_row \<lparr>word = lit ''Trend'', mnemonic = [], defn = lit ''5 < 10 & rising''\<rparr> =
       lit ''            <tr><td>Trend</td><td></td><td>5 &lt; 10 &amp; rising</td></tr>\<newline>''\<close>
    by (rule trans)
  from block_trend h r show ?thesis by blast
qed

text \<open>
  Claim C8. For every list of groups, the loop of the table of contents appends a block
  for each of the seven episodes, and a block lists the numbers of the range of its
  episode that the groups have, which may be none; the loop of the body leaves the
  document as it is for an episode exactly when its block lists none. For groups of
  the numbers 1, 2, 3 and 7 the blocks list 1, 2, 3, then 7, then nothing five times.
  For the corpus that the extractor hands to the renderer, the document is the head,
  these blocks, the end of the navigation, the sections of the episodes and the tail.
\<close>

theorem toc_and_body:
  "fold (toc_episode (make_lookup (sort_key number gs))) episodes html =
     html @ concat (map (toc_block gs) episodes)
   \<and> length episodes = 7
   \<and> map ep_groups episodes =
       [[1..4], [5..9], [10..14], [15..19], [20..24], [25..29], [30..34]]
   \<and> (body_episode (make_lookup (sort_key number gs)) ep html = html) =
       (toc_numbers gs ep = [])
   \<and> (number ` set gs = {1, 2, 3, 7} \<longrightarrow>
        map (toc_numbers gs) episodes = [[1, 2, 3], [7], [], [], [], [], []])
   \<and> (main_groups lim bs = Inr corpus \<longrightarrow>
        generate_html corpus =
          html_head_1 @ py_str (int (sum_list (map (\<lambda>g. length (entries g)) corpus))) @
          html_head_2 @ py_str (int (length corpus)) @ html_head_3 @
          concat (map (toc_block corpus) episodes) @ nav_close @
          concat (map (body_section corpus) episodes) @ html_tail)"
proof (intro conjI impI)
  show "fold (toc_episode (make_lookup (sort_key number gs))) episodes html =
     html @ concat (map (toc_block gs) episodes)"
    by (rule fold_appends) (rule toc_episode_block)
  show "(body_episode (make_lookup (sort_key number gs)) ep html = html) =
       (toc_numbers gs ep = [])"
    by (simp add: body_episode_section body_section_def section_open_1_def lit_def)
  show "map (toc_numbers gs) episodes = [[1, 2, 3], [7], [], [], [], [], []]"
    if "number ` set gs = {1, 2, 3, 7}"
    using that by (rule toc_numbers_1237)
qed (simp_all add: generate_html_document episodes_def)


text \<open>
  Two blocks that give the groups 7, 2, 1 and 3, in that order: the blocks of the first
  two episodes list 1, 2, 3 and 7, and the third episode has no section.
\<close>

theorem toc_and_body_witness:
  \<open>main_groups 4300 [lit ''Group 7\<newline>G - g\<newline>Group 2\<newline>B - b'',
                     lit ''Group 1\<newline>A - a\<newline>Group 3\<newline>C - c''] =
     Inr [\<lparr>number = 7, entries = [\<lparr>word = lit ''G'', mnemonic = [], defn = lit ''g''\<rparr>]\<rparr>,
          \<lparr>number = 2, entries = [\<lparr>word = lit ''B'', mnemonic = [], defn = lit ''b''\<rparr>]\<rparr>,
          \<lparr>number = 1, entries = [\<lparr>word = lit ''A'', mnemonic = [], defn = lit ''a''\<rparr>]\<rparr>,
          \<lparr>number = 3, entries = [\<lparr>word = lit ''C'', mnemonic = [], defn = lit ''c''\<rparr>]\<rparr>]
   \<and> map (toc_numbers
          [\<lparr>number = 7, entries = [\<lparr>word = lit ''G'', mnemonic = [], defn = lit ''g''\<rparr>]\<rparr>,
           \<lparr>number = 2, entries = [\<lparr>word = lit ''B'', mnemonic = [], defn = lit ''b''\<rparr>]\<rparr>,
           \<lparr>number = 1, entries = [\<lparr>word = lit ''A'', mnemonic = [], defn = lit ''a''\<rparr>]\<rparr>,
           \<lparr>number = 3, entries = [\<lparr>word = lit ''C'', mnemonic = [], defn = lit ''c''\<rparr>]\<rparr>])
        episodes = [[1, 2, 3], [7], [], [], [], [], []]
   \<and> body_episode
         (make_lookup (sort_key number
           [\<lparr>number = 7, entries = [\<lparr>word = lit ''G'', mnemonic = [], defn = lit ''g''\<rparr>]\<rparr>,
            \<lparr>number = 2, entries = [\<lparr>word = lit ''B'', mnemonic = [], defn = lit ''b''\<rparr>]\<rparr>,
            \<lparr>number = 1, entries = [\<lparr>word = lit ''A'', mnemonic = [], defn = lit ''a''\<rparr>]\<rparr>,
            \<lparr>number = 3, entries = [\<lparr>word = lit ''C'', mnemonic = [], defn = lit ''c''\<rparr>]\<rparr>]))
         (episodes ! 2) [] = []
   \<and> toc_link 7 = lit ''            <li><a href="#group7">Group 7</a></li>\<newline>''\<close>
proof -
  let ?bs = \<open>[lit ''Group 7\<newline>G - g\<newline>Group 2\<newline>B - b'',
              lit ''Group 1\<newline>A - a\<newline>Group 3\<newline>C - c'']\<close>
  let ?ex = \<open>[\<lparr>number = 7, entries = [\<lparr>word = lit ''G'', mnemonic = [], defn = lit ''g''\<rparr>]\<rparr>,
          \<lparr>number = 2, entries = [\<lparr>word = lit ''B'', mnemonic = [], defn = lit ''b''\<rparr>]\<rparr>,
          \<lparr>number = 1, entries = [\<lparr>word = lit ''A'', mnemonic = [], defn = lit ''a''\<rparr>]\<rparr>,
          \<lparr>number = 3, entries = [\<lparr>word = lit ''C'', mnemonic = [], defn = lit ''c''\<rparr>]\<rparr>]\<close>
  note t = toc_and_body [of ?ex "[]" "episodes ! 2" 4300 ?bs ?ex]
  have n: "number ` set ?ex = {1, 2, 3, 7}" by auto
  from t n have m: "map (toc_numbers ?ex) episodes = [[1, 2, 3], [7], [], [], [], [], []]"
    by blast
  have "toc_numbers ?ex (episodes ! 2) = map (toc_numbers ?ex) episodes ! 2"
    by (simp add: episodes_def)
  with m have "toc_numbers ?ex (episodes ! 2) = []" by simp
  with t have b: "body_episode (make_lookup (sort_key number ?ex)) (episodes ! 2) [] = []"
    by blast
  from blocks_1237 m b toc_link_7 show ?thesis by blast
qed

section \<open>Word-definition lines\<close>



















end
